theory Spec2Isabelle
  imports Complex_Main
begin

unbundle bit_operations_syntax

section \<open>Python values\<close>

subsection \<open>Strings\<close>

text \<open>
  A Python \<open>str\<close> is a sequence of Unicode code points, so it is modelled as a list of
  natural numbers. Literals of the source are ASCII and are written with \<open>ustr\<close>.
\<close>

type_synonym pystr = "nat list"

definition ustr :: "string \<Rightarrow> pystr" where
  "ustr s = map of_char s"

text \<open>
  \<open>str.isspace\<close>, which is also the class \<open>\s\<close> of \<open>re\<close> on \<open>str\<close> patterns and the set
  removed by \<open>str.strip()\<close>.
\<close>

definition is_space :: "nat \<Rightarrow> bool" where
  "is_space c \<longleftrightarrow>
     (9 \<le> c \<and> c \<le> 13) \<or> (28 \<le> c \<and> c \<le> 32) \<or> c = 133 \<or> c = 160 \<or> c = 5760 \<or>
     (8192 \<le> c \<and> c \<le> 8202) \<or> c = 8232 \<or> c = 8233 \<or> c = 8239 \<or> c = 8287 \<or> c = 12288"

text \<open>The class \<open>\w\<close> on ASCII text: letters, digits and the underscore.\<close>

definition ascii_word :: "nat \<Rightarrow> bool" where
  "ascii_word c \<longleftrightarrow>
     (48 \<le> c \<and> c \<le> 57) \<or> (65 \<le> c \<and> c \<le> 90) \<or> c = 95 \<or> (97 \<le> c \<and> c \<le> 122)"

text \<open>\<open>str.lower\<close> on ASCII text; code points from 128 on are left as they are.\<close>

definition ascii_lower_char :: "nat \<Rightarrow> nat" where
  "ascii_lower_char c = (if 65 \<le> c \<and> c \<le> 90 then c + 32 else c)"

definition ascii_lower :: "pystr \<Rightarrow> pystr" where
  "ascii_lower s = map ascii_lower_char s"

text \<open>\<open>s.startswith(p)\<close> and \<open>w in s\<close>.\<close>

fun startswith :: "pystr \<Rightarrow> pystr \<Rightarrow> bool" where
  "startswith s [] = True"
| "startswith [] (p # ps) = False"
| "startswith (c # cs) (p # ps) = (c = p \<and> startswith cs ps)"

fun contains :: "pystr \<Rightarrow> pystr \<Rightarrow> bool" where
  "contains [] w = (w = [])"
| "contains (c # cs) w = (startswith (c # cs) w \<or> contains cs w)"

text \<open>\<open>s.strip()\<close> and \<open>s.strip("-")\<close>.\<close>

definition strip_by :: "(nat \<Rightarrow> bool) \<Rightarrow> pystr \<Rightarrow> pystr" where
  "strip_by P s = rev (dropWhile P (rev (dropWhile P s)))"

definition strip :: "pystr \<Rightarrow> pystr" where
  "strip s = strip_by is_space s"

text \<open>\<open>sep.join(parts)\<close>.\<close>

fun join :: "pystr \<Rightarrow> pystr list \<Rightarrow> pystr" where
  "join sep [] = []"
| "join sep [x] = x"
| "join sep (x # y # ys) = x @ sep @ join sep (y # ys)"

text \<open>
  \<open>xs[start:end]\<close> for every pair of integers: a negative index counts from the end, and
  both are clamped to the list.
\<close>

definition slice_index :: "nat \<Rightarrow> int \<Rightarrow> nat" where
  "slice_index n i = (if i < 0 then nat (max (i + int n) 0) else min (nat i) n)"

definition py_slice :: "'a list \<Rightarrow> int \<Rightarrow> int \<Rightarrow> 'a list" where
  "py_slice xs start end =
     (let s = slice_index (length xs) start; e = slice_index (length xs) end
      in take (e - s) (drop s xs))"

subsection \<open>Floats\<close>

text \<open>
  A Python \<open>float\<close> is an IEEE 754 binary64 number. A finite float is modelled by the real
  number it denotes, and every operation by the exact result rounded to the nearest
  binary64 value, ties to even (\<open>fl\<close>): 53 significant bits, with the exponent bounded
  below by the subnormal range. Infinities and NaN are not modelled, so the model covers
  results of magnitude below \<open>2 ^ 1024\<close>; the sign of zero is not kept.
\<close>

definition rne :: "real \<Rightarrow> int" where
  "rne x = (if x - of_int \<lfloor>x\<rfloor> < 1 / 2 then \<lfloor>x\<rfloor>
            else if 1 / 2 < x - of_int \<lfloor>x\<rfloor> then \<lfloor>x\<rfloor> + 1
            else if even \<lfloor>x\<rfloor> then \<lfloor>x\<rfloor> else \<lfloor>x\<rfloor> + 1)"

fun bit_length :: "nat \<Rightarrow> nat" where
  "bit_length n = (if n = 0 then 0 else Suc (bit_length (n div 2)))"

text \<open>\<open>ilog2 x\<close> is the exponent of the leading bit of \<open>x > 0\<close>.\<close>

definition ilog2 :: "real \<Rightarrow> int" where
  "ilog2 x = (if 1 \<le> x then int (bit_length (nat \<lfloor>x\<rfloor>)) - 1
              else - int (bit_length (nat (\<lceil>1 / x\<rceil> - 1))))"

definition pow2 :: "int \<Rightarrow> real" where
  "pow2 k = (if 0 \<le> k then 2 ^ nat k else 1 / 2 ^ nat (- k))"

text \<open>\<open>round_at e x\<close> is the multiple of \<open>2 ^ e\<close> nearest to \<open>x\<close>.\<close>

definition round_at :: "int \<Rightarrow> real \<Rightarrow> real" where
  "round_at e x = of_int (rne (x / pow2 e)) * pow2 e"

definition fl :: "real \<Rightarrow> real" where
  "fl x = (if x = 0 then 0 else round_at (max (ilog2 \<bar>x\<bar> - 52) (- 1074)) x)"

definition fadd :: "real \<Rightarrow> real \<Rightarrow> real" where
  "fadd a b = fl (a + b)"

definition fsub :: "real \<Rightarrow> real \<Rightarrow> real" where
  "fsub a b = fl (a - b)"

definition fmul :: "real \<Rightarrow> real \<Rightarrow> real" where
  "fmul a b = fl (a * b)"

definition fdiv :: "real \<Rightarrow> real \<Rightarrow> real" where
  "fdiv a b = fl (a / b)"

text \<open>\<open>float(n)\<close> for an integer \<open>n\<close>, as in the mixed operations \<open>x * n\<close> and \<open>x + n\<close>.\<close>

definition float_of_int :: "int \<Rightarrow> real" where
  "float_of_int n = fl (of_int n)"

text \<open>
  \<open>round(x, ndigits)\<close> on a float: the exact value of \<open>x\<close> is rounded to \<open>ndigits\<close>
  decimals, ties to even, and the decimal is converted back to the nearest float.
\<close>

definition py_round :: "real \<Rightarrow> nat \<Rightarrow> real" where
  "py_round x ndigits = fl (of_int (rne (x * 10 ^ ndigits)) / 10 ^ ndigits)"

subsection \<open>Errors\<close>

text \<open>
  An exception is a value: \<open>HTTPException\<close> carries the status code and the fixed part of
  the detail text (interpolated numbers are left out). \<open>ValidationError\<close> is the error of
  a response schema that refuses its values; the caller sees HTTP 500.
\<close>

datatype error =
    HTTPException nat string
  | ZeroDivisionError
  | MultipleResultsFound
  | NoResultFound
  | IntegrityError
  | ValidationError

section \<open>utils/helpers.py\<close>

subsection \<open>slugify\<close>

text \<open>
  \<open>re.sub(r"[^\w\s-]", "", text)\<close> keeps word characters, whitespace and hyphens;
  \<open>re.sub(r"[-\s]+", "-", text)\<close> replaces every maximal run of hyphens and whitespace by
  one hyphen: \<open>collapse_runs in_run\<close> scans the text, \<open>in_run\<close> telling whether the
  previous character belonged to a run.
\<close>

definition is_sep :: "nat \<Rightarrow> bool" where
  "is_sep c \<longleftrightarrow> c = 45 \<or> is_space c"

definition remove_special :: "pystr \<Rightarrow> pystr" where
  "remove_special s = filter (\<lambda>c. ascii_word c \<or> is_space c \<or> c = 45) s"

fun collapse_runs :: "bool \<Rightarrow> pystr \<Rightarrow> pystr" where
  "collapse_runs in_run [] = []"
| "collapse_runs in_run (c # cs) =
     (if is_sep c then (if in_run then collapse_runs True cs else 45 # collapse_runs True cs)
      else c # collapse_runs False cs)"

text \<open>
  \<open>unicodedata.normalize("NFKD", text)\<close> belongs to the interpreter, not to the
  repository: it is the parameter \<open>nfkd\<close>. \<open>text.encode("ascii", "ignore").decode("ascii")\<close>
  drops every code point from 128 on.
\<close>

definition slugify :: "(pystr \<Rightarrow> pystr) \<Rightarrow> pystr \<Rightarrow> pystr" where
  "slugify nfkd text =
     (let text = nfkd text;
          text = filter (\<lambda>c. c < 128) text;
          text = ascii_lower text;
          text = remove_special text;
          text = collapse_runs False text;
          text = strip_by (\<lambda>c. c = 45) text
      in text)"

text \<open>A normalisation used to run \<open>slugify\<close>: it decomposes U+00E9 and keeps the rest.\<close>

definition nfkd_sample :: "pystr \<Rightarrow> pystr" where
  "nfkd_sample s = concat (map (\<lambda>c. if c = 233 then [101, 769] else [c]) s)"

subsection \<open>paginate\<close>

record 'a page =
  items :: "'a list"
  total :: int
  page :: int
  page_size :: int
  total_pages :: int

definition paginate :: "'a list \<Rightarrow> int \<Rightarrow> int \<Rightarrow> error + 'a page" where
  "paginate its pg pg_size =
     (let total = int (length its)
      in if pg_size = 0 then Inl ZeroDivisionError
         else
           let total_pages = (total + pg_size - 1) div pg_size;
               start = (pg - 1) * pg_size;
               end = start + pg_size
           in Inr \<lparr>items = py_slice its start end, total = total, page = pg,
                    page_size = pg_size, total_pages = total_pages\<rparr>)"

subsection \<open>calculate_transaction_fee\<close>

definition calculate_transaction_fee :: "real \<Rightarrow> real \<Rightarrow> real \<times> real" where
  "calculate_transaction_fee amount fee_percent =
     (let fee = py_round (fmul amount (fdiv fee_percent (float_of_int 100))) 2;
          net = py_round (fsub amount fee) 2
      in (fee, net))"

text \<open>
  The fee as the specification words it, \<open>round(amount * feePercent / 100, 2)\<close>, for
  comparison with the source's \<open>round(amount * (fee_percent / 100), 2)\<close>.
\<close>

definition spec_fee :: "real \<Rightarrow> real \<Rightarrow> real" where
  "spec_fee amount fee_percent =
     py_round (fdiv (fmul amount fee_percent) (float_of_int 100)) 2"

subsection \<open>The shape of a slug\<close>

text \<open>
  Lower-case letters, digits, underscores and single hyphens, with no hyphen at either
  end: what \<open>slugify\<close> returns.
\<close>

definition slug_char :: "nat \<Rightarrow> bool" where
  "slug_char c \<longleftrightarrow> (48 \<le> c \<and> c \<le> 57) \<or> c = 95 \<or> (97 \<le> c \<and> c \<le> 122)"

fun no_double_hyphen :: "pystr \<Rightarrow> bool" where
  "no_double_hyphen (a # b # cs) = (\<not> (a = 45 \<and> b = 45) \<and> no_double_hyphen (b # cs))"
| "no_double_hyphen cs = True"

definition is_slug :: "pystr \<Rightarrow> bool" where
  "is_slug r \<longleftrightarrow>
     list_all (\<lambda>c. slug_char c \<or> c = 45) r \<and> no_double_hyphen r \<and>
     (r = [] \<or> (hd r \<noteq> 45 \<and> last r \<noteq> 45))"

section \<open>utils/agent_verification.py\<close>

text \<open>
  A \<open>datetime\<close> is the number of microseconds since the epoch (the ISO text stored in a
  challenge is read back to the same instant), and every call of \<open>datetime.utcnow()\<close> is
  a parameter of the function that makes it. \<open>active_challenges\<close> is a dictionary from
  challenge ids to challenges.
\<close>

record challenge =
  challenge_id :: pystr
  challenge_type :: pystr
  challenge_text :: pystr
  expected_answer :: pystr
  created_at :: int
  expires_at :: int
  max_response_time_ms :: int

type_synonym challenges = "pystr \<rightharpoonup> challenge"

text \<open>
  \<open>generate_verification_challenge\<close>: the task, its answer and the id come from the random
  generators; the two time stamps are two readings of the clock.
\<close>

definition generate_verification_challenge ::
  "pystr \<Rightarrow> pystr \<Rightarrow> pystr \<Rightarrow> pystr \<Rightarrow> int \<Rightarrow> int \<Rightarrow> challenge" where
  "generate_verification_challenge cid ctype task answer now1 now2 =
     \<lparr>challenge_id = cid, challenge_type = ctype, challenge_text = task,
      expected_answer = answer, created_at = now1,
      expires_at = now2 + 5 * 60 * 1000000, max_response_time_ms = 30000\<rparr>"

definition store_challenge :: "challenges \<Rightarrow> pystr \<Rightarrow> challenge \<Rightarrow> int \<Rightarrow> challenges" where
  "store_challenge active cid challenge_data now =
     (let active = active(cid \<mapsto> challenge_data)
      in (\<lambda>k. case active k of
                 None \<Rightarrow> None
               | Some d \<Rightarrow> if expires_at d < now then None else Some d))"

definition create_registration_challenge ::
  "challenges \<Rightarrow> pystr \<Rightarrow> pystr \<Rightarrow> pystr \<Rightarrow> pystr \<Rightarrow> int \<Rightarrow> int \<Rightarrow> int
     \<Rightarrow> challenges \<times> challenge" where
  "create_registration_challenge active cid ctype task answer now1 now2 now3 =
     (let ch = generate_verification_challenge cid ctype task answer now1 now2
      in (store_challenge active (challenge_id ch) ch now3, ch))"

definition verify_challenge_response ::
  "challenges \<Rightarrow> pystr \<Rightarrow> pystr \<Rightarrow> real \<Rightarrow> int \<Rightarrow> challenges \<times> bool \<times> string" where
  "verify_challenge_response active cid answer response_time_ms now =
     (case active cid of
        None \<Rightarrow> (active, False, ''challenge_not_found_or_expired'')
      | Some ch \<Rightarrow>
          if expires_at ch < now then (active(cid := None), False, ''challenge_expired'')
          else if real_of_int (max_response_time_ms ch) < response_time_ms
            then (active, False, ''response_too_slow'')
          else if strip answer \<noteq> strip (expected_answer ch)
            then (active, False, ''incorrect_answer'')
          else if response_time_ms < 1000
            then (active(cid := None), True, ''verified_fast_response'')
          else (active(cid := None), True, ''verified''))"

text \<open>
  \<open>timedelta.total_seconds()\<close> divides the microseconds by \<open>10 ** 6\<close>, a true division of
  integers, which is correctly rounded.
\<close>

definition total_seconds :: "int \<Rightarrow> real" where
  "total_seconds us = fl (real_of_int us / 1000000)"

definition verify_registration ::
  "challenges \<Rightarrow> pystr \<Rightarrow> pystr \<Rightarrow> int \<Rightarrow> int \<Rightarrow> int \<Rightarrow> challenges \<times> bool \<times> string" where
  "verify_registration active cid answer start_time now1 now2 =
     (let response_time_ms = fmul (total_seconds (now1 - start_time)) (float_of_int 1000)
      in verify_challenge_response active cid answer response_time_ms now2)"

text \<open>
  \<open>register_agent\<close> of routers/agents.py, up to the verdict of the verification (the
  creation of the account follows it): \<open>request_start\<close> is the clock at the start of the
  handler.
\<close>

definition register_agent_verification ::
  "challenges \<Rightarrow> pystr \<Rightarrow> pystr \<Rightarrow> int \<Rightarrow> int \<Rightarrow> int \<Rightarrow> challenges \<times> (error + string)" where
  "register_agent_verification active cid challenge_answer request_start now1 now2 =
     (case verify_registration active cid challenge_answer request_start now1 now2 of
        (active', is_valid, reason) \<Rightarrow>
          if \<not> is_valid then
            if reason = ''challenge_not_found_or_expired''
              then (active', Inl (HTTPException 400 ''Challenge not found or expired''))
            else if reason = ''incorrect_answer''
              then (active', Inl (HTTPException 403 ''Incorrect challenge answer''))
            else if reason = ''response_too_slow''
              then (active', Inl (HTTPException 403 ''Response too slow''))
            else (active', Inl (HTTPException 400 ''Verification failed''))
          else (active', Inr reason))"

text \<open>A store with one challenge, issued at time 0: its answer is 42.\<close>

definition sample_challenges :: challenges where
  "sample_challenges =
     fst (create_registration_challenge Map.empty (ustr ''c0ffee'') (ustr ''math'')
            (ustr ''Calculate fibonacci(9) + 8'') (ustr ''42'') 0 0 0)"

section \<open>utils/content_moderation.py\<close>

text \<open>
  \<open>str.lower\<close> on arbitrary text is the interpreter's (the Unicode case tables): it is the
  parameter \<open>lower\<close> of the functions that call it.
\<close>

definition PROHIBITED_KEYWORDS :: "pystr list" where
  "PROHIBITED_KEYWORDS = map ustr
     [''weapon'', ''weapons'', ''explosive'', ''bomb'', ''poison'', ''toxic'',
      ''malware'', ''virus'', ''ransomware'', ''spyware'', ''keylogger'',
      ''hack'', ''hacking'', ''exploit'', ''zero-day'', ''0day'',
      ''ddos'', ''dos attack'', ''botnet'',
      ''phishing'', ''scam'', ''fraud'',
      ''stolen'', ''leaked'', ''breach'', ''dump'',
      ''illegal'', ''illicit'',
      ''drug'', ''drugs'', ''narcotic'',
      ''counterfeit'', ''fake id'', ''forged'',
      ''jailbreak'', ''jailbreaking'',
      ''prompt injection'', ''prompt attack'',
      ''model extraction'', ''model stealing'',
      ''training data poison'', ''data poisoning'',
      ''adversarial attack'', ''adversarial example'',
      ''backdoor attack'', ''trojan model'',
      ''deepfake'', ''fake news generator'',
      ''misinformation'', ''disinformation'',
      ''impersonation tool'',
      ''doxxing'', ''dox'',
      ''stalking'', ''stalkerware'',
      ''spy on'', ''surveillance'',
      ''personal data'', ''pii dump'']"

text \<open>
  The regular expressions of \<open>PROHIBITED_PATTERNS\<close> are built from literals, alternatives,
  an optional part and \<open>\s+\<close>. \<open>rmatch r s\<close> lists what is left of \<open>s\<close> after each way of
  matching \<open>r\<close> at its start, and \<open>re_search\<close> tries every start. Under \<open>re.IGNORECASE\<close>
  a letter of the pattern matches the characters whose simple lower case it is, and
  \<open>i\<close> and \<open>s\<close> also match the dotless i and the long s.
\<close>

datatype regex =
    Lit pystr
  | Spaces
  | Opt regex
  | Alt "regex list"
  | Seq regex regex

definition ci_eq :: "nat \<Rightarrow> nat \<Rightarrow> bool" where
  "ci_eq p c \<longleftrightarrow>
     c = p \<or> (97 \<le> p \<and> p \<le> 122 \<and> c + 32 = p) \<or>
     (p = 105 \<and> (c = 304 \<or> c = 305)) \<or> (p = 115 \<and> c = 383) \<or> (p = 107 \<and> c = 8490)"

fun ci_prefix :: "pystr \<Rightarrow> pystr \<Rightarrow> pystr option" where
  "ci_prefix [] s = Some s"
| "ci_prefix (p # ps) [] = None"
| "ci_prefix (p # ps) (c # cs) = (if ci_eq p c then ci_prefix ps cs else None)"

fun after_spaces :: "pystr \<Rightarrow> pystr list" where
  "after_spaces [] = []"
| "after_spaces (c # cs) = (if is_space c then cs # after_spaces cs else [])"

fun rmatch :: "regex \<Rightarrow> pystr \<Rightarrow> pystr list" where
  "rmatch (Lit w) s = (case ci_prefix w s of None \<Rightarrow> [] | Some rest \<Rightarrow> [rest])"
| "rmatch Spaces s = after_spaces s"
| "rmatch (Opt r) s = rmatch r s @ [s]"
| "rmatch (Alt rs) s = concat (map (\<lambda>r. rmatch r s) rs)"
| "rmatch (Seq a b) s = concat (map (rmatch b) (rmatch a s))"

fun re_search :: "regex \<Rightarrow> pystr \<Rightarrow> bool" where
  "re_search r [] = (rmatch r [] \<noteq> [])"
| "re_search r (c # cs) = (rmatch r (c # cs) \<noteq> [] \<or> re_search r cs)"

definition lits :: "string list \<Rightarrow> regex" where
  "lits ws = Alt (map (\<lambda>w. Lit (ustr w)) ws)"

definition PROHIBITED_PATTERNS :: "regex list" where
  "PROHIBITED_PATTERNS =
     [Seq (Lit (ustr ''bypass''))
        (Seq Spaces (lits [''security'', ''safety'', ''filter'', ''guardrail''])),
      Seq (Lit (ustr ''disable''))
        (Seq Spaces (lits [''safety'', ''security'', ''protection''])),
      Seq (Lit (ustr ''remove'')) (Seq Spaces (lits [''watermark'', ''copyright''])),
      Seq (Lit (ustr ''crack''))
        (Seq (Opt (lits [''ed'', ''ing''])) (Seq Spaces (lits [''software'', ''license'', ''key'']))),
      Seq (Lit (ustr ''stolen''))
        (Seq Spaces (lits [''credential'', ''password'', ''data'', ''account''])),
      Seq (lits [''buy'', ''sell''])
        (Seq Spaces (lits [''account'', ''credential'', ''password'']))]"

text \<open>The text that is checked: \<open>f"{title} {description} {' '.join(tags)}".lower()\<close>.\<close>

definition all_text :: "(pystr \<Rightarrow> pystr) \<Rightarrow> pystr \<Rightarrow> pystr \<Rightarrow> pystr list \<Rightarrow> pystr" where
  "all_text lower title description tags =
     lower (title @ [32] @ description @ [32] @ join [32] tags)"

definition keyword_reason :: "pystr \<Rightarrow> pystr" where
  "keyword_reason keyword =
     ustr ''Content contains prohibited term related to harmful activities: '' @ [39] @ keyword
     @ [39] @ ustr ''. Our North Star: Do not sell anything that can cause harm to AI or humans.''"

definition pattern_reason :: pystr where
  "pattern_reason =
     ustr ''Content matches prohibited pattern related to harmful activities. Our North Star: Do not sell anything that can cause harm to AI or humans.''"

definition check_content_safety ::
  "(pystr \<Rightarrow> pystr) \<Rightarrow> pystr \<Rightarrow> pystr \<Rightarrow> pystr list \<Rightarrow> bool \<times> pystr" where
  "check_content_safety lower title description tags =
     (let text = all_text lower title description tags
      in case find (\<lambda>keyword. contains text (lower keyword)) PROHIBITED_KEYWORDS of
           Some keyword \<Rightarrow> (False, keyword_reason keyword)
         | None \<Rightarrow>
             if list_ex (\<lambda>pattern. re_search pattern text) PROHIBITED_PATTERNS
             then (False, pattern_reason)
             else (True, ustr ''Content approved''))"

section \<open>services/guardian_moderator.py\<close>

datatype ModerationAction =
  APPROVED | WARNING | FLAGGED | REMOVED | AGENT_WARNED | AGENT_SUSPENDED

definition action_value :: "ModerationAction \<Rightarrow> string" where
  "action_value a = (case a of
       APPROVED \<Rightarrow> ''approved'' | WARNING \<Rightarrow> ''warning'' | FLAGGED \<Rightarrow> ''flagged''
     | REMOVED \<Rightarrow> ''removed'' | AGENT_WARNED \<Rightarrow> ''agent_warned''
     | AGENT_SUSPENDED \<Rightarrow> ''agent_suspended'')"

datatype ViolationType =
  HARMFUL_CONTENT | MALICIOUS_INTENT | SPAM | FRAUD | IMPERSONATION | REPEATED_VIOLATIONS

text \<open>
  A log id \<open>MOD-<day>-<counter>\<close> is kept as the pair of the day (the clock in whole days)
  and the counter. The details of a listing log are the title, the severity and the trust
  score.
\<close>

record ModerationLog =
  log_id :: "int \<times> nat"
  timestamp :: int
  action :: ModerationAction
  target_type :: string
  target_id :: pystr
  log_agent_id :: pystr
  reason :: pystr
  details :: "(pystr \<times> int \<times> real) option"

record AgentTrustScore =
  trust_agent_id :: pystr
  score :: real
  warnings :: int
  violations :: int
  last_violation :: "int option"
  is_trusted :: bool

record FlaggedContent =
  flagged_type :: string
  flagged_id :: pystr
  flagged_reason :: pystr
  flagged_agent_id :: pystr
  flagged_at :: int
  flagged_status :: string

record Guardian =
  moderation_logs :: "ModerationLog list"
  agent_trust_scores :: "pystr \<rightharpoonup> AgentTrustScore"
  flagged_content :: "pystr \<rightharpoonup> FlaggedContent"
  log_counter :: nat

definition new_guardian :: Guardian where
  "new_guardian = \<lparr>moderation_logs = [], agent_trust_scores = Map.empty,
                    flagged_content = Map.empty, log_counter = 0\<rparr>"

text \<open>
  The methods of \<open>GuardianModerator\<close> take the moderator and return it updated. Their
  names drop the leading underscore. Within one call the clock is read as one instant
  \<open>now\<close>.
\<close>

definition generate_log_id :: "Guardian \<Rightarrow> int \<Rightarrow> Guardian \<times> (int \<times> nat)" where
  "generate_log_id g now =
     (let g = g\<lparr>log_counter := log_counter g + 1\<rparr>
      in (g, (now div 86400000000, log_counter g)))"

definition get_agent_trust :: "Guardian \<Rightarrow> pystr \<Rightarrow> Guardian \<times> AgentTrustScore" where
  "get_agent_trust g aid =
     (case agent_trust_scores g aid of
        Some t \<Rightarrow> (g, t)
      | None \<Rightarrow>
          let t = \<lparr>trust_agent_id = aid, score = fl (8 / 10), warnings = 0, violations = 0,
                   last_violation = None, is_trusted = True\<rparr>
          in (g\<lparr>agent_trust_scores := (agent_trust_scores g)(aid \<mapsto> t)\<rparr>, t))"

definition record_warning :: "Guardian \<Rightarrow> pystr \<Rightarrow> Guardian" where
  "record_warning g aid =
     (case get_agent_trust g aid of
        (g, trust) \<Rightarrow>
          let trust = trust\<lparr>warnings := warnings trust + 1\<rparr>;
              trust = trust\<lparr>score := max 0 (fsub (score trust) (fl (5 / 100)))\<rparr>;
              trust = (if 3 \<le> warnings trust then trust\<lparr>is_trusted := False\<rparr> else trust)
          in g\<lparr>agent_trust_scores := (agent_trust_scores g)(aid \<mapsto> trust)\<rparr>)"

definition suspend_agent :: "Guardian \<Rightarrow> pystr \<Rightarrow> pystr \<Rightarrow> int \<Rightarrow> Guardian" where
  "suspend_agent g aid why now =
     (case generate_log_id g now of
        (g, lid) \<Rightarrow>
          g\<lparr>moderation_logs := moderation_logs g @
              [\<lparr>log_id = lid, timestamp = now, action = AGENT_SUSPENDED, target_type = ''agent'',
                target_id = aid, log_agent_id = aid, reason = why, details = None\<rparr>]\<rparr>)"

definition record_violation :: "Guardian \<Rightarrow> pystr \<Rightarrow> ViolationType \<Rightarrow> int \<Rightarrow> Guardian" where
  "record_violation g aid violation_type now =
     (case get_agent_trust g aid of
        (g, trust) \<Rightarrow>
          let trust = trust\<lparr>violations := violations trust + 1\<rparr>;
              trust = trust\<lparr>last_violation := Some now\<rparr>;
              trust = trust\<lparr>score := max 0 (fsub (score trust) (fl (2 / 10)))\<rparr>;
              trust = trust\<lparr>is_trusted := False\<rparr>;
              g = g\<lparr>agent_trust_scores := (agent_trust_scores g)(aid \<mapsto> trust)\<rparr>
          in if 3 \<le> violations trust
             then suspend_agent g aid (ustr ''Repeated violations of marketplace rules'') now
             else g)"

definition flag_content ::
  "Guardian \<Rightarrow> string \<Rightarrow> pystr \<Rightarrow> pystr \<Rightarrow> pystr \<Rightarrow> int \<Rightarrow> Guardian" where
  "flag_content g content_type content_id why aid now =
     g\<lparr>flagged_content := (flagged_content g)(ustr content_type @ [58] @ content_id \<mapsto>
          \<lparr>flagged_type = content_type, flagged_id = content_id, flagged_reason = why,
           flagged_agent_id = aid, flagged_at = now, flagged_status = ''pending_review''\<rparr>)\<rparr>"

definition severity_words :: "pystr \<Rightarrow> string list \<Rightarrow> int \<Rightarrow> int" where
  "severity_words text ws weight =
     weight * int (length (filter (\<lambda>w. contains text (ustr w)) ws))"

definition calculate_severity ::
  "(pystr \<Rightarrow> pystr) \<Rightarrow> pystr \<Rightarrow> pystr \<Rightarrow> pystr list \<Rightarrow> int" where
  "calculate_severity lower title description tags =
     (let text = all_text lower title description tags;
          severity = 0;
          severity = severity + severity_words text
            [''malware'', ''weapon'', ''exploit'', ''ransomware'', ''ddos'', ''botnet''] 4;
          severity = severity + severity_words text
            [''hack'', ''crack'', ''stolen'', ''leaked'', ''jailbreak''] 2;
          severity = severity + severity_words text [''bypass'', ''unlock'', ''free''] 1
      in min 10 severity)"

text \<open>
  The result of a review. Its \<open>guardian_says\<close> entry, a courtesy line drawn at random for
  the action, is left out.
\<close>

record Review =
  approved :: bool
  review_action :: string
  message :: pystr
  review_log_id :: "int \<times> nat"

definition review_listing ::
  "(pystr \<Rightarrow> pystr) \<Rightarrow> Guardian \<Rightarrow> pystr \<Rightarrow> pystr \<Rightarrow> pystr \<Rightarrow> pystr list \<Rightarrow> pystr \<Rightarrow> int
     \<Rightarrow> Guardian \<times> Review" where
  "review_listing lower g lid title description tags aid now =
     (case check_content_safety lower title description tags of
        (is_safe, why) \<Rightarrow>
          let severity = calculate_severity lower title description tags
          in case get_agent_trust g aid of
               (g, trust) \<Rightarrow>
                 (case
                    (if is_safe \<and> severity = 0 then
                       (APPROVED, [9989] @ ustr '' Listing approved by Guardian.'', g)
                     else if severity \<le> 2 \<and> is_trusted trust then
                       (WARNING,
                        [9888, 65039] @ ustr '' Guardian notice: '' @ why
                          @ ustr ''. Please review your listing.'',
                        record_warning g aid)
                     else if severity \<le> 4 then
                       (FLAGGED, [128681] @ ustr '' Listing flagged by Guardian: '' @ why,
                        flag_content g ''listing'' lid why aid now)
                     else
                       (REMOVED, [128737, 65039] @ ustr '' Listing removed by Guardian: '' @ why,
                        record_violation g aid HARMFUL_CONTENT now))
                  of (act, msg, g) \<Rightarrow>
                    (case generate_log_id g now of
                       (g, new_id) \<Rightarrow>
                         (g\<lparr>moderation_logs := moderation_logs g @
                              [\<lparr>log_id = new_id, timestamp = now, action = act,
                                target_type = ''listing'', target_id = lid, log_agent_id = aid,
                                reason = why,
                                details = Some (title, severity,
                                                score (snd (get_agent_trust g aid)))\<rparr>]\<rparr>,
                          \<lparr>approved = (act = APPROVED), review_action = action_value act,
                           message = msg, review_log_id = new_id\<rparr>))))"

section \<open>models/database_models.py\<close>

text \<open>
  A table is the list of its rows, a row a record of the columns that the modelled
  functions read or write (texts copied from a request and never read again, such as
  images or documentation, are left out). Field names carry the name of their table where
  two tables share a column name.
\<close>

datatype AgentStatus = Agent_ACTIVE | Agent_SUSPENDED | Agent_BANNED | Agent_PENDING

datatype ListingStatus =
  Listing_DRAFT | Listing_ACTIVE | Listing_SOLD | Listing_EXPIRED | Listing_CANCELLED

datatype ListingType = FIXED_PRICE | AUCTION | NEGOTIABLE

datatype TransactionStatus =
  Txn_PENDING | Txn_COMPLETED | Txn_FAILED | Txn_REFUNDED | Txn_DISPUTED

record Agent =
  agent_id :: pystr
  agent_name :: pystr
  api_key_hash :: pystr
  agent_status :: AgentStatus
  credits :: real
  rating_avg :: real
  rating_count :: int
  total_sales :: int
  total_purchases :: int
  last_active_at :: "int option"

record Category =
  category_id :: pystr
  category_name :: pystr
  category_is_active :: bool

record Listing =
  listing_id :: pystr
  seller_id :: pystr
  listing_category_id :: "pystr option"
  listing_title :: pystr
  listing_description :: pystr
  listing_type :: ListingType
  listing_price :: real
  listing_min_price :: "real option"
  listing_buy_now_price :: "real option"
  listing_quantity :: int
  listing_condition :: "pystr option"
  listing_tags :: "pystr list option"
  listing_status :: ListingStatus
  view_count :: int
  listing_expires_at :: "int option"

record Transaction =
  transaction_id :: pystr
  txn_listing_id :: pystr
  buyer_id :: pystr
  txn_seller_id :: pystr
  txn_quantity :: int
  unit_price :: real
  total_amount :: real
  fee_amount :: real
  net_amount :: real
  transaction_status :: TransactionStatus
  buyer_notes :: "pystr option"

record Rating =
  rating_id :: pystr
  rating_transaction_id :: pystr
  rater_id :: pystr
  ratee_id :: pystr
  rating_score :: int
  rating_review :: "pystr option"
  communication_score :: "int option"
  accuracy_score :: "int option"
  speed_score :: "int option"

record Database =
  agents :: "Agent list"
  categories :: "Category list"
  listings :: "Listing list"
  transactions :: "Transaction list"
  ratings :: "Rating list"

text \<open>
  \<open>Result.scalar_one_or_none()\<close> and \<open>Result.scalar_one()\<close> on the rows that a
  \<open>select\<close> found.
\<close>

definition scalar_one_or_none :: "'a list \<Rightarrow> error + 'a option" where
  "scalar_one_or_none rows =
     (case rows of [] \<Rightarrow> Inr None | [r] \<Rightarrow> Inr (Some r) | _ \<Rightarrow> Inl MultipleResultsFound)"

definition scalar_one :: "'a list \<Rightarrow> error + 'a" where
  "scalar_one rows =
     (case rows of [] \<Rightarrow> Inl NoResultFound | [r] \<Rightarrow> Inr r | _ \<Rightarrow> Inl MultipleResultsFound)"

text \<open>
  An attribute assignment on a loaded row, written back by \<open>commit\<close>: the row is found
  by its primary key.
\<close>

definition update_agent :: "Database \<Rightarrow> pystr \<Rightarrow> (Agent \<Rightarrow> Agent) \<Rightarrow> Database" where
  "update_agent db aid f =
     db\<lparr>agents := map (\<lambda>a. if agent_id a = aid then f a else a) (agents db)\<rparr>"

definition update_listing :: "Database \<Rightarrow> pystr \<Rightarrow> (Listing \<Rightarrow> Listing) \<Rightarrow> Database" where
  "update_listing db lid f =
     db\<lparr>listings := map (\<lambda>l. if listing_id l = lid then f l else l) (listings db)\<rparr>"

section \<open>config.py\<close>

definition API_KEY_PREFIX :: pystr where
  "API_KEY_PREFIX = ustr ''aam_''"

definition TRANSACTION_FEE_PERCENT :: real where
  "TRANSACTION_FEE_PERCENT = 5 / 2"

definition MIN_LISTING_PRICE :: real where
  "MIN_LISTING_PRICE = fl (1 / 100)"

definition MAX_LISTING_PRICE :: real where
  "MAX_LISTING_PRICE = 1000000"

section \<open>utils/auth.py\<close>

text \<open>
  \<open>hash_api_key\<close> is SHA-256 of the key, the parameter \<open>hash_api_key\<close> of the two
  dependencies. Both return the database, where \<open>last_active_at\<close> may have changed, and
  the outcome.
\<close>

definition get_current_agent ::
  "(pystr \<Rightarrow> pystr) \<Rightarrow> Database \<Rightarrow> pystr option \<Rightarrow> int \<Rightarrow> Database \<times> (error + Agent)" where
  "get_current_agent hash_api_key db api_key now =
     (case api_key of
        None \<Rightarrow> (db, Inl (HTTPException 401 ''API key required''))
      | Some key \<Rightarrow>
          if key = [] then (db, Inl (HTTPException 401 ''API key required''))
          else if \<not> startswith key API_KEY_PREFIX
            then (db, Inl (HTTPException 401 ''Invalid API key format.''))
          else
            case scalar_one_or_none
                   (filter (\<lambda>a. api_key_hash a = hash_api_key key) (agents db)) of
              Inl e \<Rightarrow> (db, Inl e)
            | Inr None \<Rightarrow> (db, Inl (HTTPException 401 ''Invalid API key.''))
            | Inr (Some agent) \<Rightarrow>
                if agent_status agent = Agent_BANNED
                  then (db, Inl (HTTPException 403 ''Agent account is banned.''))
                else if agent_status agent = Agent_SUSPENDED
                  then (db, Inl (HTTPException 403 ''Agent account is suspended.''))
                else
                  (update_agent db (agent_id agent) (\<lambda>a. a\<lparr>last_active_at := Some now\<rparr>),
                   Inr (agent\<lparr>last_active_at := Some now\<rparr>)))"

definition get_optional_agent ::
  "(pystr \<Rightarrow> pystr) \<Rightarrow> Database \<Rightarrow> pystr option \<Rightarrow> int
     \<Rightarrow> Database \<times> (error + Agent option)" where
  "get_optional_agent hash_api_key db api_key now =
     (case api_key of
        None \<Rightarrow> (db, Inr None)
      | Some key \<Rightarrow>
          if key = [] \<or> \<not> startswith key API_KEY_PREFIX then (db, Inr None)
          else
            case scalar_one_or_none
                   (filter (\<lambda>a. api_key_hash a = hash_api_key key) (agents db)) of
              Inl e \<Rightarrow> (db, Inl e)
            | Inr None \<Rightarrow> (db, Inr None)
            | Inr (Some agent) \<Rightarrow>
                (update_agent db (agent_id agent) (\<lambda>a. a\<lparr>last_active_at := Some now\<rparr>),
                 Inr (Some (agent\<lparr>last_active_at := Some now\<rparr>))))"

section \<open>routers\<close>

text \<open>
  A handler takes the database and the authenticated agent (the row that
  \<open>get_current_agent\<close> returned) and returns the database and the outcome. An exception
  raised before \<open>commit\<close> leaves the database as it was. The answer is built after
  \<open>commit\<close>: an exception raised there leaves the committed database.
  \<open>generate_id()\<close> is the parameter \<open>new_id\<close>; inserting a row whose primary key is
  taken is an \<open>IntegrityError\<close> of the commit.
\<close>

subsection \<open>routers/listings.py\<close>

record ListingCreate =
  lc_title :: pystr
  lc_description :: pystr
  lc_category_id :: "pystr option"
  lc_listing_type :: ListingType
  lc_price :: real
  lc_min_price :: "real option"
  lc_buy_now_price :: "real option"
  lc_quantity :: int
  lc_condition :: "pystr option"
  lc_tags :: "pystr list option"
  lc_expires_in_days :: "int option"

text \<open>\<open>listing_data.tags or []\<close>.\<close>

definition or_empty :: "'a list option \<Rightarrow> 'a list" where
  "or_empty xs = (case xs of None \<Rightarrow> [] | Some ys \<Rightarrow> ys)"

definition calculate_expiry :: "int \<Rightarrow> int \<Rightarrow> int" where
  "calculate_expiry now days = now + days * 86400000000"

definition create_listing ::
  "(pystr \<Rightarrow> pystr) \<Rightarrow> Guardian \<Rightarrow> Database \<Rightarrow> ListingCreate \<Rightarrow> Agent \<Rightarrow> int \<Rightarrow> pystr
     \<Rightarrow> Guardian \<times> Database \<times> (error + Listing)" where
  "create_listing lower guardian db listing_data current_agent now new_id =
     (case review_listing lower guardian (ustr ''pending'') (lc_title listing_data)
             (lc_description listing_data)
             (or_empty (lc_tags listing_data))
             (agent_id current_agent) now of
        (guardian, guardian_review) \<Rightarrow>
          if \<not> approved guardian_review
            then (guardian, db, Inl (HTTPException 400 ''Guardian Review''))
          else
            case (case lc_category_id listing_data of
                    None \<Rightarrow> Inr (Some ())
                  | Some cid \<Rightarrow>
                      if cid = [] then Inr (Some ())
                      else map_sum id (map_option (\<lambda>c. ()))
                             (scalar_one_or_none
                                (filter (\<lambda>c. category_id c = cid \<and> category_is_active c)
                                   (categories db)))) of
              Inl e \<Rightarrow> (guardian, db, Inl e)
            | Inr None \<Rightarrow> (guardian, db, Inl (HTTPException 400 ''Invalid category''))
            | Inr (Some u) \<Rightarrow>
                if lc_price listing_data < MIN_LISTING_PRICE
                  then (guardian, db, Inl (HTTPException 400 ''Minimum listing price''))
                else if MAX_LISTING_PRICE < lc_price listing_data
                  then (guardian, db, Inl (HTTPException 400 ''Maximum listing price''))
                else
                  let listing =
                        \<lparr>listing_id = new_id, seller_id = agent_id current_agent,
                         listing_category_id = lc_category_id listing_data,
                         listing_title = lc_title listing_data,
                         listing_description = lc_description listing_data,
                         listing_type = lc_listing_type listing_data,
                         listing_price = lc_price listing_data,
                         listing_min_price = lc_min_price listing_data,
                         listing_buy_now_price = lc_buy_now_price listing_data,
                         listing_quantity = lc_quantity listing_data,
                         listing_condition = lc_condition listing_data,
                         listing_tags = lc_tags listing_data,
                         listing_status = Listing_ACTIVE, view_count = 0,
                         listing_expires_at =
                           Some (calculate_expiry now
                                   (case lc_expires_in_days listing_data of
                                      None \<Rightarrow> 30 | Some d \<Rightarrow> if d = 0 then 30 else d))\<rparr>
                  in if new_id \<in> listing_id ` set (listings db)
                     then (guardian, db, Inl IntegrityError)
                     else (guardian, db\<lparr>listings := listings db @ [listing]\<rparr>, Inr listing))"

text \<open>
  A first submission: an agent that the moderator has not met offers a listing titled
  "Unlock", and one titled "crack free".
\<close>

definition sample_seller :: Agent where
  "sample_seller =
     \<lparr>agent_id = ustr ''agent-1'', agent_name = ustr ''Seller'', api_key_hash = ustr ''h1'',
      agent_status = Agent_ACTIVE, credits = 100, rating_avg = 0, rating_count = 0,
      total_sales = 0, total_purchases = 0, last_active_at = None\<rparr>"

definition empty_market :: Database where
  "empty_market =
     \<lparr>agents = [sample_seller], categories = [], listings = [], transactions = [],
      ratings = []\<rparr>"

definition unlock_listing :: "pystr \<Rightarrow> ListingCreate" where
  "unlock_listing ttl =
     \<lparr>lc_title = ttl, lc_description = ustr ''premium features for agents'',
      lc_category_id = None, lc_listing_type = FIXED_PRICE, lc_price = 10,
      lc_min_price = None, lc_buy_now_price = None, lc_quantity = 1, lc_condition = None,
      lc_tags = None,
      lc_expires_in_days = Some 30\<rparr>"

subsection \<open>routers/agents.py\<close>

record CreditsTransfer =
  recipient_id :: pystr
  transfer_amount :: real
  transfer_note :: "pystr option"

text \<open>The handler's answer is modelled by \<open>your_new_balance\<close>.\<close>

definition transfer_credits ::
  "Database \<Rightarrow> Agent \<Rightarrow> CreditsTransfer \<Rightarrow> Database \<times> (error + real)" where
  "transfer_credits db current_agent transfer =
     (if credits current_agent < transfer_amount transfer
        then (db, Inl (HTTPException 400 ''Insufficient credits.''))
      else
        case scalar_one_or_none
               (filter (\<lambda>a. agent_id a = recipient_id transfer) (agents db)) of
          Inl e \<Rightarrow> (db, Inl e)
        | Inr None \<Rightarrow> (db, Inl (HTTPException 404 ''Recipient agent not found''))
        | Inr (Some recipient) \<Rightarrow>
            if agent_id recipient = agent_id current_agent
              then (db, Inl (HTTPException 400 ''Cannot transfer credits to yourself''))
            else if agent_status recipient \<noteq> Agent_ACTIVE
              then (db, Inl (HTTPException 400 ''Recipient agent is not active''))
            else
              let new_balance = fsub (credits current_agent) (transfer_amount transfer);
                  db = update_agent db (agent_id current_agent)
                         (\<lambda>a. a\<lparr>credits := new_balance\<rparr>);
                  db = update_agent db (agent_id recipient)
                         (\<lambda>a. a\<lparr>credits := fadd (credits recipient) (transfer_amount transfer)\<rparr>)
              in (db, Inr new_balance))"

subsection \<open>routers/transactions.py\<close>

record TransactionCreate =
  tc_listing_id :: pystr
  tc_quantity :: int
  tc_buyer_notes :: "pystr option"

text \<open>
  \<open>ListingResponse\<close> of models/schemas.py inherits the constraints of \<open>ListingBase\<close>: a
  title of 1 to 200 characters, a description of 10 to 50000, a price above 0, optional
  prices above 0, a quantity of at least 1, a condition of at most 50 characters.
  Constructing it from values that break one of them raises.
\<close>

definition valid_listing_response :: "Listing \<Rightarrow> bool" where
  "valid_listing_response l \<longleftrightarrow>
     1 \<le> length (listing_title l) \<and> length (listing_title l) \<le> 200 \<and>
     10 \<le> length (listing_description l) \<and> length (listing_description l) \<le> 50000 \<and>
     0 < listing_price l \<and>
     (case listing_min_price l of None \<Rightarrow> True | Some p \<Rightarrow> 0 < p) \<and>
     (case listing_buy_now_price l of None \<Rightarrow> True | Some p \<Rightarrow> 0 < p) \<and>
     1 \<le> listing_quantity l \<and>
     (case listing_condition l of None \<Rightarrow> True | Some c \<Rightarrow> length c \<le> 50)"

record TransactionResponse =
  response_transaction :: Transaction
  response_listing :: "Listing option"

text \<open>
  \<open>transaction_to_response\<close>: \<open>listing\<close> is \<open>transaction.listing\<close>, the row of the
  transaction's listing.
\<close>

definition transaction_to_response ::
  "Transaction \<Rightarrow> Listing option \<Rightarrow> bool \<Rightarrow> error + TransactionResponse" where
  "transaction_to_response txn listing include_listing =
     (case (if include_listing then listing else None) of
        None \<Rightarrow> Inr \<lparr>response_transaction = txn, response_listing = None\<rparr>
      | Some l \<Rightarrow>
          if valid_listing_response l
          then Inr \<lparr>response_transaction = txn, response_listing = Some l\<rparr>
          else Inl ValidationError)"

definition create_purchase ::
  "Database \<Rightarrow> Agent \<Rightarrow> TransactionCreate \<Rightarrow> pystr
     \<Rightarrow> Database \<times> (error + TransactionResponse)" where
  "create_purchase db current_agent purchase_data new_id =
     (case scalar_one_or_none
             (filter (\<lambda>l. listing_id l = tc_listing_id purchase_data) (listings db)) of
        Inl e \<Rightarrow> (db, Inl e)
      | Inr None \<Rightarrow> (db, Inl (HTTPException 404 ''Listing not found''))
      | Inr (Some listing) \<Rightarrow>
          if listing_status listing \<noteq> Listing_ACTIVE
            then (db, Inl (HTTPException 400 ''Listing is not available for purchase''))
          else if seller_id listing = agent_id current_agent
            then (db, Inl (HTTPException 400 ''Cannot purchase your own listing''))
          else if listing_quantity listing < tc_quantity purchase_data
            then (db, Inl (HTTPException 400 ''Requested quantity exceeds available''))
          else
            let total_amount = fmul (listing_price listing)
                                 (float_of_int (tc_quantity purchase_data));
                fee_net = calculate_transaction_fee total_amount TRANSACTION_FEE_PERCENT
            in if credits current_agent < total_amount
                 then (db, Inl (HTTPException 400 ''Insufficient credits.''))
               else
                 let db1 = update_agent db (agent_id current_agent)
                             (\<lambda>a. a\<lparr>credits := fsub (credits current_agent) total_amount\<rparr>);
                     new_quantity = listing_quantity listing - tc_quantity purchase_data;
                     sold = (\<lambda>l. l\<lparr>listing_quantity := new_quantity,
                                      listing_status :=
                                        (if new_quantity = 0 then Listing_SOLD
                                         else listing_status listing)\<rparr>);
                     db2 = update_listing db1 (listing_id listing) sold;
                     txn = \<lparr>transaction_id = new_id, txn_listing_id = listing_id listing,
                            buyer_id = agent_id current_agent,
                            txn_seller_id = seller_id listing,
                            txn_quantity = tc_quantity purchase_data,
                            unit_price = listing_price listing,
                            total_amount = total_amount,
                            fee_amount = fst fee_net, net_amount = snd fee_net,
                            transaction_status = Txn_PENDING,
                            buyer_notes = tc_buyer_notes purchase_data\<rparr>;
                     db3 = update_agent db2 (agent_id current_agent)
                             (\<lambda>a. a\<lparr>total_purchases := total_purchases current_agent + 1\<rparr>)
                 in if new_id \<in> transaction_id ` set (transactions db)
                    then (db, Inl IntegrityError)
                    else (db3\<lparr>transactions := transactions db3 @ [txn]\<rparr>,
                          transaction_to_response txn (Some (sold listing)) True))"

subsection \<open>routers/ratings.py\<close>

record RatingCreate =
  rc_transaction_id :: pystr
  rc_score :: int
  rc_review :: "pystr option"
  rc_communication_score :: "int option"
  rc_accuracy_score :: "int option"
  rc_speed_score :: "int option"

text \<open>
  The answer, a \<open>RatingResponse\<close>, has no constraint and is modelled by the rating. The
  division \<open>total_score / ratee.rating_count\<close> raises when the new count is 0.
\<close>

definition create_rating ::
  "Database \<Rightarrow> Agent \<Rightarrow> RatingCreate \<Rightarrow> pystr \<Rightarrow> Database \<times> (error + Rating)" where
  "create_rating db current_agent rating_data new_id =
     (case scalar_one_or_none
             (filter (\<lambda>t. transaction_id t = rc_transaction_id rating_data) (transactions db)) of
        Inl e \<Rightarrow> (db, Inl e)
      | Inr None \<Rightarrow> (db, Inl (HTTPException 404 ''Transaction not found''))
      | Inr (Some txn) \<Rightarrow>
          if buyer_id txn \<noteq> agent_id current_agent \<and> txn_seller_id txn \<noteq> agent_id current_agent
            then (db, Inl (HTTPException 403 ''You are not part of this transaction''))
          else if transaction_status txn \<noteq> Txn_COMPLETED
            then (db, Inl (HTTPException 400 ''Can only rate completed transactions''))
          else
            let ratee = (if agent_id current_agent = buyer_id txn then txn_seller_id txn
                         else buyer_id txn)
            in case scalar_one_or_none
                      (filter (\<lambda>r. rating_transaction_id r = rc_transaction_id rating_data
                                     \<and> rater_id r = agent_id current_agent) (ratings db)) of
                 Inl e \<Rightarrow> (db, Inl e)
               | Inr (Some existing) \<Rightarrow>
                   (db, Inl (HTTPException 400 ''You have already rated this transaction''))
               | Inr None \<Rightarrow>
                   let rating =
                         \<lparr>rating_id = new_id,
                          rating_transaction_id = rc_transaction_id rating_data,
                          rater_id = agent_id current_agent, ratee_id = ratee,
                          rating_score = rc_score rating_data,
                          rating_review = rc_review rating_data,
                          communication_score = rc_communication_score rating_data,
                          accuracy_score = rc_accuracy_score rating_data,
                          speed_score = rc_speed_score rating_data\<rparr>
                   in case scalar_one (filter (\<lambda>a. agent_id a = ratee) (agents db)) of
                        Inl e \<Rightarrow> (db, Inl e)
                      | Inr ratee_row \<Rightarrow>
                          let total_score =
                                fadd (fmul (rating_avg ratee_row)
                                        (float_of_int (rating_count ratee_row)))
                                     (float_of_int (rc_score rating_data));
                              new_count = rating_count ratee_row + 1
                          in if new_count = 0 then (db, Inl ZeroDivisionError)
                             else
                               let new_avg =
                                     py_round (fdiv total_score (float_of_int new_count)) 2;
                                   db1 = update_agent db ratee
                                           (\<lambda>a. a\<lparr>rating_count := new_count,
                                                   rating_avg := new_avg\<rparr>)
                               in if new_id \<in> rating_id ` set (ratings db)
                                  then (db, Inl IntegrityError)
                                  else (db1\<lparr>ratings := ratings db1 @ [rating]\<rparr>, Inr rating))"

section \<open>Reading the tables, and sample data\<close>

text \<open>
  The row of a primary key, used to state what a handler did to the database; and rows
  and databases on which the functions are run. The sample hash of an API key is the key
  reversed.
\<close>

definition agent_by_id :: "Database \<Rightarrow> pystr \<Rightarrow> Agent option" where
  "agent_by_id db aid = find (\<lambda>a. agent_id a = aid) (agents db)"

definition listing_by_id :: "Database \<Rightarrow> pystr \<Rightarrow> Listing option" where
  "listing_by_id db lid = find (\<lambda>l. listing_id l = lid) (listings db)"

definition sample_agent :: "string \<Rightarrow> AgentStatus \<Rightarrow> real \<Rightarrow> Agent" where
  "sample_agent n st c =
     \<lparr>agent_id = ustr n, agent_name = ustr n, api_key_hash = rev (ustr (''aam_'' @ n)),
      agent_status = st, credits = c, rating_avg = 0, rating_count = 0,
      total_sales = 0, total_purchases = 0, last_active_at = None\<rparr>"

definition sample_market :: "Agent list \<Rightarrow> Database" where
  "sample_market as =
     \<lparr>agents = as, categories = [], listings = [], transactions = [], ratings = []\<rparr>"

text \<open>The total of a purchase: the unit price times the quantity, \<open>listing.price * quantity\<close>.\<close>

definition purchase_total :: "Listing \<Rightarrow> TransactionCreate \<Rightarrow> real" where
  "purchase_total l pd = fmul (listing_price l) (float_of_int (tc_quantity pd))"

definition sample_listing :: "string \<Rightarrow> string \<Rightarrow> real \<Rightarrow> int \<Rightarrow> ListingStatus \<Rightarrow> Listing" where
  "sample_listing n seller p q st =
     \<lparr>listing_id = ustr n, seller_id = ustr seller, listing_category_id = None,
      listing_title = ustr n, listing_description = ustr ''a sample listing'',
      listing_type = FIXED_PRICE, listing_price = p, listing_min_price = None,
      listing_buy_now_price = None, listing_quantity = q, listing_condition = None,
      listing_tags = None,
      listing_status = st, view_count = 0, listing_expires_at = None\<rparr>"

text \<open>
  The running average as the specification words it,
  \<open>newAvg = round((oldAvg * oldCount + newScore) / (oldCount + 1), 2)\<close>, read as
  arithmetic on the numbers: the exact quotient rounded to two decimals, ties to even.
\<close>

definition spec_rating_avg :: "real \<Rightarrow> int \<Rightarrow> int \<Rightarrow> real" where
  "spec_rating_avg old_avg old_count new_score =
     real_of_int (rne ((old_avg * real_of_int old_count + real_of_int new_score)
                        / real_of_int (old_count + 1) * 100)) / 100"

text \<open>The same quotient as the floats compute it, each operation rounded to binary64.\<close>

definition float_rating_quotient :: "real \<Rightarrow> int \<Rightarrow> int \<Rightarrow> real" where
  "float_rating_quotient old_avg old_count new_score =
     fdiv (fadd (fmul old_avg (float_of_int old_count)) (float_of_int new_score))
          (float_of_int (old_count + 1))"

text \<open>
  A market where buyer \<open>b1\<close> has three completed purchases from seller \<open>s1\<close>, whose
  rating aggregate and received ratings are given.
\<close>

definition sample_txn :: "string \<Rightarrow> Transaction" where
  "sample_txn n =
     \<lparr>transaction_id = ustr n, txn_listing_id = ustr ''L1'', buyer_id = ustr ''b1'',
      txn_seller_id = ustr ''s1'', txn_quantity = 1, unit_price = 10, total_amount = 10,
      fee_amount = 1 / 4, net_amount = 39 / 4, transaction_status = Txn_COMPLETED,
      buyer_notes = None\<rparr>"

definition sample_rating :: "string \<Rightarrow> string \<Rightarrow> int \<Rightarrow> Rating" where
  "sample_rating n txn s =
     \<lparr>rating_id = ustr n, rating_transaction_id = ustr txn, rater_id = ustr ''b1'',
      ratee_id = ustr ''s1'', rating_score = s, rating_review = None,
      communication_score = None, accuracy_score = None, speed_score = None\<rparr>"

definition sample_rating_create :: "string \<Rightarrow> int \<Rightarrow> RatingCreate" where
  "sample_rating_create txn s =
     \<lparr>rc_transaction_id = ustr txn, rc_score = s, rc_review = None,
      rc_communication_score = None, rc_accuracy_score = None, rc_speed_score = None\<rparr>"

definition rated_market :: "real \<Rightarrow> int \<Rightarrow> Rating list \<Rightarrow> Database" where
  "rated_market avg n rs =
     \<lparr>agents = [(sample_agent ''s1'' Agent_ACTIVE 100)\<lparr>rating_avg := avg, rating_count := n\<rparr>,
                sample_agent ''b1'' Agent_ACTIVE 100],
      categories = [], listings = [],
      transactions = [sample_txn ''T1'', sample_txn ''T2'', sample_txn ''T3''],
      ratings = rs\<rparr>"

section \<open>Properties\<close>

subsection \<open>Evaluating floats\<close>

lemma bit_length_0: "bit_length 0 = 0"
  by simp

lemma bit_length_Suc_0: "bit_length (Suc 0) = Suc 0"
  by simp

lemma bit_length_1: "bit_length 1 = 1"
  by simp

lemma bit_length_Bit0: "bit_length (numeral (Num.Bit0 n)) = Suc (bit_length (numeral n))"
  by (subst bit_length.simps) (simp add: numeral_Bit0_div_2)

lemma bit_length_Bit1: "bit_length (numeral (Num.Bit1 n)) = Suc (bit_length (numeral n))"
  by (subst bit_length.simps) (simp add: numeral_Bit1_div_2)

lemmas bit_length_numeral =
  bit_length_0 bit_length_Suc_0 bit_length_1 bit_length_Bit0 bit_length_Bit1

declare bit_length.simps [simp del]

lemmas float_eval =
  fl_def round_at_def ilog2_def pow2_def rne_def bit_length_numeral
  fadd_def fsub_def fmul_def fdiv_def float_of_int_def py_round_def


text \<open>
  Three known values: the floats written \<open>0.1\<close> and \<open>0.3\<close>, and \<open>0.1 + 0.2\<close>, which is
  \<open>0.30000000000000004\<close>, the float after \<open>0.3\<close>.
\<close>

lemma fl_known_values:
  "fl (1 / 10) = 3602879701896397 / 36028797018963968"
  "fl (3 / 10) = 5404319552844595 / 18014398509481984"
  "fadd (fl (1 / 10)) (fl (2 / 10)) = 5404319552844596 / 18014398509481984"
  by (simp_all add: float_eval)

subsection \<open>paginate\<close>

lemma ceiling_div_int:
  assumes "0 < b"
  shows "\<lceil>(of_int a :: real) / of_int b\<rceil> = (a + b - 1) div b"
proof -
  define q where "q = (a + b - 1) div b"
  define r where "r = (a + b - 1) mod b"
  have r: "0 \<le> r" "r < b" using assms by (simp_all add: r_def)
  have eq: "a + b - 1 = b * q + r" by (simp add: q_def r_def)
  have lo: "(q - 1) * b < a" using eq r by (simp add: algebra_simps)
  have hi: "a \<le> q * b" using eq r by (simp add: algebra_simps)
  have "(of_int ((q - 1) * b) :: real) < of_int a" using lo by (simp only: of_int_less_iff)
  then have lo': "(of_int q - 1) * of_int b < (of_int a :: real)" by simp
  have "(of_int a :: real) \<le> of_int (q * b)" using hi by (simp only: of_int_le_iff)
  then have hi': "(of_int a :: real) \<le> of_int q * of_int b" by simp
  have b': "(0 :: real) < of_int b" using assms by simp
  have "of_int q - 1 < (of_int a :: real) / of_int b"
    using lo' b' by (simp add: pos_less_divide_eq)
  moreover have "(of_int a :: real) / of_int b \<le> of_int q"
    using hi' b' by (simp add: pos_divide_le_eq)
  ultimately have "\<lceil>(of_int a :: real) / of_int b\<rceil> = q" by (rule ceiling_unique)
  then show ?thesis by (simp add: q_def)
qed

lemma py_slice_window:
  assumes "0 \<le> start" "0 \<le> sz"
  shows "py_slice xs start (start + sz) = take (nat sz) (drop (nat start) xs)"
proof (cases "nat start \<le> length xs")
  case True
  then show ?thesis using assms
    by (simp add: py_slice_def slice_index_def Let_def nat_add_distrib min_def)
next
  case False
  then show ?thesis using assms
    by (simp add: py_slice_def slice_index_def Let_def nat_add_distrib min_def)
qed

text \<open>
  C10. For a page number and a page size of at least 1, \<open>paginate\<close> returns: the length
  of the list as \<open>total\<close>; \<open>total_pages = ceil(total / page_size)\<close>; and as \<open>items\<close> the
  window of \<open>page_size\<close> elements that starts at \<open>(page - 1) * page_size\<close>, so never more
  than \<open>page_size\<close> elements. The witness runs it on 45 items with page size 20 (3 pages)
  and on no item (0 pages).
\<close>

theorem paginate_total_pages:
  assumes "1 \<le> pg" and "1 \<le> pg_size"
  shows "\<exists>r. paginate its pg pg_size = Inr r
           \<and> total r = int (length its)
           \<and> total_pages r = \<lceil>real_of_int (total r) / real_of_int pg_size\<rceil>
           \<and> items r = take (nat pg_size) (drop (nat ((pg - 1) * pg_size)) its)
           \<and> int (length (items r)) \<le> pg_size"
proof -
  have pos: "0 < pg_size" using assms by simp
  have start: "0 \<le> (pg - 1) * pg_size" using assms by simp
  have sl: "py_slice its ((pg - 1) * pg_size) ((pg - 1) * pg_size + pg_size)
              = take (nat pg_size) (drop (nat ((pg - 1) * pg_size)) its)"
    using start pos by (simp add: py_slice_window)
  show ?thesis
    using pos sl by (simp add: paginate_def Let_def ceiling_div_int)
qed

theorem paginate_total_pages_witness:
  "(1::int) \<le> 3 \<and> (1::int) \<le> 20
   \<and> (\<exists>r. paginate (replicate 45 (0::nat)) 3 20 = Inr r \<and> total r = 45 \<and> total_pages r = 3
            \<and> items r = replicate 5 0)
   \<and> (\<exists>r. paginate ([]::nat list) 1 20 = Inr r \<and> total r = 0 \<and> total_pages r = 0
            \<and> items r = [])"
  using paginate_total_pages [of 3 20 "replicate 45 (0::nat)"]
    paginate_total_pages [of 1 20 "[]::nat list"]
  by (auto simp add: numeral_eq_Suc)

subsection \<open>calculate_transaction_fee\<close>

lemma fee_at_100: "calculate_transaction_fee 100 (5 / 2) = (5 / 2, 195 / 2)"
  unfolding calculate_transaction_fee_def Let_def by (simp add: float_eval)

lemma fee_at_0375: "calculate_transaction_fee (3 / 8) (5 / 2) = (fl (1 / 100), fl (36 / 100))"
  unfolding calculate_transaction_fee_def Let_def by (simp add: float_eval)

lemma py_round_hundredths: "\<exists>k. py_round x 2 = fl (of_int k / 100)"
  by (auto simp add: py_round_def)

text \<open>
  C8, as amended. \<open>calculate_transaction_fee\<close> returns
  \<open>fee = round(amount * (fee_percent / 100), 2)\<close> and \<open>net = round(amount - fee, 2)\<close>, every
  step in binary64 and each result rounded on its own, so that each is the float nearest
  to a whole number of hundredths. For amount 100.0 and 2.5 percent it returns fee 2.5 and
  net 97.5, whose sum is the total 100.0.
\<close>

theorem calculate_transaction_fee_rounds:
  "calculate_transaction_fee amount fee_percent =
     (py_round (fmul amount (fdiv fee_percent (float_of_int 100))) 2,
      py_round (fsub amount (py_round (fmul amount (fdiv fee_percent (float_of_int 100))) 2)) 2)
   \<and> (\<exists>k. fst (calculate_transaction_fee amount fee_percent) = fl (of_int k / 100))
   \<and> (\<exists>k. snd (calculate_transaction_fee amount fee_percent) = fl (of_int k / 100))
   \<and> calculate_transaction_fee 100 (5 / 2) = (5 / 2, 195 / 2)
   \<and> fadd (5 / 2) (195 / 2) = py_round 100 2"
proof -
  have "fadd (5 / 2) (195 / 2) = py_round 100 2"
    by (simp add: float_eval)
  then show ?thesis
    using fee_at_100 py_round_hundredths
    by (simp add: calculate_transaction_fee_def Let_def)
qed

text \<open>
  C8 as stated fails. For amount 0.375 and 2.5 percent the fee is 0.01 and the net 0.36:
  their sum, as a float addition and as an exact sum, is 0.37, and the total rounded to two
  decimals is 0.38. For amount 1.4 and 2.5 percent the source's fee is 0.03, while
  \<open>round(amount * feePercent / 100, 2)\<close> evaluated in that order is 0.04.
\<close>

theorem fee_plus_net_counterexample:
  "fadd (fst (calculate_transaction_fee (3 / 8) (5 / 2)))
        (snd (calculate_transaction_fee (3 / 8) (5 / 2))) \<noteq> py_round (3 / 8) 2
   \<and> fst (calculate_transaction_fee (3 / 8) (5 / 2))
        + snd (calculate_transaction_fee (3 / 8) (5 / 2)) \<noteq> py_round (3 / 8) 2
   \<and> fst (calculate_transaction_fee (fl (14 / 10)) (5 / 2)) \<noteq> spec_fee (fl (14 / 10)) (5 / 2)"
proof -
  have a: "fadd (fl (1 / 100)) (fl (36 / 100)) \<noteq> py_round (3 / 8) 2"
    by (simp add: float_eval)
  have b: "fl (1 / 100) + fl (36 / 100) \<noteq> py_round (3 / 8) 2"
    by (simp add: float_eval)
  have c: "fst (calculate_transaction_fee (fl (14 / 10)) (5 / 2)) = fl (3 / 100)"
    unfolding calculate_transaction_fee_def Let_def by (simp add: float_eval)
  have d: "spec_fee (fl (14 / 10)) (5 / 2) = fl (4 / 100)"
    by (simp add: spec_fee_def float_eval)
  have e: "fl (3 / 100) \<noteq> fl (4 / 100)"
    by (simp add: float_eval)
  show ?thesis using a b c d e by (simp add: fee_at_0375)
qed

subsection \<open>slugify\<close>

lemma no_double_hyphen_Cons:
  "no_double_hyphen (a # xs) \<longleftrightarrow> (a = 45 \<longrightarrow> xs = [] \<or> hd xs \<noteq> 45) \<and> no_double_hyphen xs"
  by (cases xs) auto

lemma no_double_hyphen_append:
  "no_double_hyphen (xs @ ys) \<Longrightarrow> no_double_hyphen xs \<and> no_double_hyphen ys"
proof (induction xs)
  case Nil
  then show ?case by simp
next
  case (Cons a xs)
  then show ?case
    by (cases xs) (auto simp add: no_double_hyphen_Cons)
qed

lemma is_sep_45: "is_sep 45"
  by (simp add: is_sep_def)

lemma collapse_runs_set:
  "c \<in> set (collapse_runs b s) \<Longrightarrow> c = 45 \<or> (c \<in> set s \<and> \<not> is_sep c)"
  by (induction s arbitrary: b) (auto split: if_splits)

lemma collapse_runs_shape:
  "no_double_hyphen (collapse_runs b s)
   \<and> (b \<longrightarrow> collapse_runs b s = [] \<or> hd (collapse_runs b s) \<noteq> 45)"
proof (induction s arbitrary: b)
  case Nil
  then show ?case by simp
next
  case (Cons c s)
  show ?case
  proof (cases "is_sep c")
    case True
    then show ?thesis
      using Cons.IH [of True] by (simp add: no_double_hyphen_Cons)
  next
    case False
    then have "c \<noteq> 45" using is_sep_45 by auto
    then show ?thesis
      using False Cons.IH [of False] by (simp add: no_double_hyphen_Cons)
  qed
qed

lemma collapse_runs_fixed:
  "\<forall>c\<in>set r. is_sep c \<longrightarrow> c = 45 \<Longrightarrow> no_double_hyphen r
   \<Longrightarrow> (b \<longrightarrow> r = [] \<or> hd r \<noteq> 45) \<Longrightarrow> collapse_runs b r = r"
proof (induction r arbitrary: b)
  case Nil
  then show ?case by simp
next
  case (Cons c r)
  show ?case
  proof (cases "is_sep c")
    case True
    then have c: "c = 45" using Cons.prems(1) by simp
    then have nb: "\<not> b" using Cons.prems(3) by simp
    have "collapse_runs True r = r"
      using Cons.prems c by (intro Cons.IH) (auto simp add: no_double_hyphen_Cons)
    then show ?thesis using True c nb by simp
  next
    case False
    have "collapse_runs False r = r"
      using Cons.prems by (intro Cons.IH) (auto simp add: no_double_hyphen_Cons)
    then show ?thesis using False by simp
  qed
qed

lemma strip_by_infix: "\<exists>pre suf. s = pre @ strip_by P s @ suf"
proof -
  define t where "t = dropWhile P s"
  have "rev (dropWhile P (rev t)) @ rev (takeWhile P (rev t))
          = rev (takeWhile P (rev t) @ dropWhile P (rev t))"
    by (rule rev_append [symmetric])
  also have "\<dots> = rev (rev t)" by (simp only: takeWhile_dropWhile_id)
  finally have "t = rev (dropWhile P (rev t)) @ rev (takeWhile P (rev t))" by simp
  moreover have "s = takeWhile P s @ t" by (simp add: t_def)
  ultimately have "s = takeWhile P s @ strip_by P s @ rev (takeWhile P (rev t))"
    by (simp add: strip_by_def t_def)
  then show ?thesis by blast
qed

lemma strip_by_set: "set (strip_by P s) \<subseteq> set s"
  using strip_by_infix [of s P] by (metis Un_iff set_append subsetI)

lemma strip_by_ends:
  assumes "strip_by P s \<noteq> []"
  shows "\<not> P (hd (strip_by P s)) \<and> \<not> P (last (strip_by P s))"
proof -
  define t where "t = dropWhile P s"
  define u where "u = dropWhile P (rev t)"
  have su: "strip_by P s = rev u" by (simp add: strip_by_def t_def u_def)
  have u: "u \<noteq> []" using assms su by simp
  then have "\<not> P (hd u)" unfolding u_def by (rule hd_dropWhile)
  then have l: "\<not> P (last (rev u))" using u by (simp add: last_rev)
  have "rev t = takeWhile P (rev t) @ u" by (simp add: u_def)
  then have "rev (rev t) = rev (takeWhile P (rev t) @ u)" by simp
  then have t: "t = rev u @ rev (takeWhile P (rev t))" by simp
  then have tn: "t \<noteq> []" using u by auto
  have "hd t = hd (rev u)" using t u by (metis hd_append2 rev_is_Nil_conv)
  moreover have "\<not> P (hd t)" using tn unfolding t_def by (rule hd_dropWhile)
  ultimately show ?thesis using l su by simp
qed

lemma strip_by_fixed:
  assumes "r = [] \<or> (\<not> P (hd r) \<and> \<not> P (last r))"
  shows "strip_by P r = r"
proof (cases "r = []")
  case True
  then show ?thesis by (simp add: strip_by_def)
next
  case False
  then have h: "\<not> P (hd r)" and l: "\<not> P (last r)" using assms by auto
  have a: "dropWhile P r = r" using h by (simp add: dropWhile_eq_self_iff)
  have b: "dropWhile P (rev r) = rev r" using l by (simp add: dropWhile_eq_self_iff hd_rev)
  show ?thesis by (simp add: strip_by_def a b)
qed

lemma slugify_is_slug: "is_slug (slugify nfkd text)"
proof -
  define t4 where "t4 = remove_special (ascii_lower (filter (\<lambda>c. c < 128) (nfkd text)))"
  define t5 where "t5 = collapse_runs False t4"
  define r where "r = strip_by (\<lambda>c. c = 45) t5"
  have r: "slugify nfkd text = r"
    by (simp add: slugify_def Let_def r_def t5_def t4_def)
  have c4: "ascii_word c \<or> is_space c \<or> c = 45" "\<not> (65 \<le> c \<and> c \<le> 90)" if "c \<in> set t4" for c
    using that by (auto simp add: t4_def remove_special_def ascii_lower_def ascii_lower_char_def split: if_splits)
  have c5: "slug_char c \<or> c = 45" if "c \<in> set t5" for c
  proof -
    from that have "c = 45 \<or> (c \<in> set t4 \<and> \<not> is_sep c)"
      unfolding t5_def by (rule collapse_runs_set)
    then show ?thesis
      using c4 [of c] by (auto simp add: is_sep_def slug_char_def ascii_word_def)
  qed
  have "set r \<subseteq> set t5" unfolding r_def by (rule strip_by_set)
  then have chars: "list_all (\<lambda>c. slug_char c \<or> c = 45) r"
    using c5 by (auto simp add: list_all_iff)
  obtain pre suf where "t5 = pre @ r @ suf"
    using strip_by_infix [of t5 "\<lambda>c. c = 45"] unfolding r_def by blast
  moreover have "no_double_hyphen t5"
    unfolding t5_def using collapse_runs_shape by blast
  ultimately have nd: "no_double_hyphen r"
    using no_double_hyphen_append by metis
  have ends: "r = [] \<or> (hd r \<noteq> 45 \<and> last r \<noteq> 45)"
    using strip_by_ends [of "\<lambda>c. c = 45" t5] unfolding r_def by blast
  show ?thesis
    unfolding r is_slug_def using chars nd ends by simp
qed

lemma slug_char_facts:
  assumes "slug_char c \<or> c = 45"
  shows "c < 128" and "ascii_lower_char c = c" and "ascii_word c \<or> is_space c \<or> c = 45"
    and "is_sep c \<longrightarrow> c = 45"
  using assms
  by (auto simp add: slug_char_def ascii_lower_char_def ascii_word_def is_sep_def is_space_def)

lemma slugify_on_slug:
  assumes "is_slug r" and "nfkd r = r"
  shows "slugify nfkd r = r"
proof -
  have chars: "\<forall>c\<in>set r. slug_char c \<or> c = 45"
    using assms(1) by (simp add: is_slug_def list_all_iff)
  have f: "filter (\<lambda>c. c < 128) r = r"
    using chars slug_char_facts(1) by (simp add: filter_id_conv)
  have l: "ascii_lower r = r"
    unfolding ascii_lower_def using chars slug_char_facts(2) by (simp add: map_idI)
  have s: "remove_special r = r"
    unfolding remove_special_def using chars slug_char_facts(3) by (simp add: filter_id_conv)
  have c: "collapse_runs False r = r"
    using chars slug_char_facts(4) assms(1) by (intro collapse_runs_fixed) (auto simp add: is_slug_def)
  have p: "strip_by (\<lambda>c. c = 45) r = r"
    using assms(1) by (intro strip_by_fixed) (auto simp add: is_slug_def)
  show ?thesis
    by (simp add: slugify_def Let_def assms(2) f l s c p)
qed

text \<open>
  C9. \<open>slugify\<close> is idempotent, and maps "AI Services & Tools" to "ai-services-tools".
  The one fact used about NFKD normalisation is that it leaves ASCII text as it is.
\<close>

theorem slugify_idempotent:
  assumes "\<And>s. list_all (\<lambda>c. c < 128) s \<Longrightarrow> nfkd s = s"
  shows "slugify nfkd (slugify nfkd text) = slugify nfkd text
         \<and> slugify nfkd (ustr ''AI Services & Tools'') = ustr ''ai-services-tools''"
proof -
  have slug: "is_slug (slugify nfkd text)" by (rule slugify_is_slug)
  then have "list_all (\<lambda>c. c < 128) (slugify nfkd text)"
    using slug_char_facts(1) by (auto simp add: is_slug_def list_all_iff)
  then have "nfkd (slugify nfkd text) = slugify nfkd text" by (rule assms)
  with slug have idem: "slugify nfkd (slugify nfkd text) = slugify nfkd text"
    by (rule slugify_on_slug)
  have "list_all (\<lambda>c. c < 128) (ustr ''AI Services & Tools'')"
    by (simp add: ustr_def)
  then have "nfkd (ustr ''AI Services & Tools'') = ustr ''AI Services & Tools''" by (rule assms)
  then have "slugify nfkd (ustr ''AI Services & Tools'') = ustr ''ai-services-tools''"
    unfolding slugify_def Let_def
    by (simp add: ustr_def ascii_lower_def ascii_lower_char_def remove_special_def
        ascii_word_def is_space_def is_sep_def strip_by_def)
  with idem show ?thesis by simp
qed

lemma nfkd_sample_ascii: "list_all (\<lambda>c. c < 128) s \<Longrightarrow> nfkd_sample s = s"
  by (induction s) (auto simp add: nfkd_sample_def)

theorem slugify_idempotent_witness:
  "slugify nfkd_sample (slugify nfkd_sample ([32, 45, 233] @ ustr ''  Caf_E -- X  '' @ [233, 45, 45, 9]))
     = ustr ''e-caf_e-x-e''
   \<and> slugify nfkd_sample ([32, 45, 233] @ ustr ''  Caf_E -- X  '' @ [233, 45, 45, 9])
     = ustr ''e-caf_e-x-e''
   \<and> slugify nfkd_sample (ustr ''AI Services & Tools'') = ustr ''ai-services-tools''"
proof -
  have "slugify nfkd_sample ([32, 45, 233] @ ustr ''  Caf_E -- X  '' @ [233, 45, 45, 9])
     = ustr ''e-caf_e-x-e''"
    unfolding slugify_def Let_def
    by (simp add: nfkd_sample_def ustr_def ascii_lower_def ascii_lower_char_def remove_special_def
        ascii_word_def is_space_def is_sep_def strip_by_def)
  then show ?thesis
    using slugify_idempotent [of nfkd_sample "[32, 45, 233] @ ustr ''  Caf_E -- X  '' @ [233, 45, 45, 9]",
        OF nfkd_sample_ascii]
    by simp
qed

subsection \<open>Challenge verification\<close>

text \<open>
  C6. The verdicts of \<open>verify_challenge_response\<close>, in the order of its checks: an unknown
  id fails as not found; a stored challenge past its expiry fails as expired and is
  deleted; a live challenge answered after more than its response-time budget fails as too
  slow; on a live challenge answered within the budget, an answer that differs from the
  expected one after trimming fails as incorrect (the challenge stays),
  and an answer that matches after trimming succeeds and deletes the challenge, so that
  any further submission of the same id fails as not found.
\<close>

theorem verify_challenge_response_taxonomy:
  "(active cid = None \<longrightarrow>
      verify_challenge_response active cid answer rt now
        = (active, False, ''challenge_not_found_or_expired''))
   \<and> (\<forall>ch. active cid = Some ch \<and> expires_at ch < now \<longrightarrow>
      verify_challenge_response active cid answer rt now
        = (active(cid := None), False, ''challenge_expired''))
   \<and> (\<forall>ch. active cid = Some ch \<and> now \<le> expires_at ch
          \<and> real_of_int (max_response_time_ms ch) < rt \<longrightarrow>
      verify_challenge_response active cid answer rt now = (active, False, ''response_too_slow''))
   \<and> (\<forall>ch. active cid = Some ch \<and> now \<le> expires_at ch
          \<and> rt \<le> real_of_int (max_response_time_ms ch)
          \<and> strip answer \<noteq> strip (expected_answer ch) \<longrightarrow>
      verify_challenge_response active cid answer rt now = (active, False, ''incorrect_answer''))
   \<and> (\<forall>ch. active cid = Some ch \<and> now \<le> expires_at ch
          \<and> rt \<le> real_of_int (max_response_time_ms ch)
          \<and> strip answer = strip (expected_answer ch) \<longrightarrow>
      verify_challenge_response active cid answer rt now
        = (active(cid := None), True,
           if rt < 1000 then ''verified_fast_response'' else ''verified'')
      \<and> verify_challenge_response (active(cid := None)) cid answer' rt' now'
        = (active(cid := None), False, ''challenge_not_found_or_expired''))"
  by (simp add: verify_challenge_response_def)

lemma sample_challenges_eq:
  "sample_challenges = [ustr ''c0ffee'' \<mapsto>
      \<lparr>challenge_id = ustr ''c0ffee'', challenge_type = ustr ''math'',
       challenge_text = ustr ''Calculate fibonacci(9) + 8'', expected_answer = ustr ''42'',
       created_at = 0, expires_at = 300000000, max_response_time_ms = 30000\<rparr>]"
  by (auto simp add: sample_challenges_def create_registration_challenge_def
      generate_verification_challenge_def store_challenge_def Let_def fun_eq_iff)

lemma strip_42: "strip (ustr ''42'') = ustr ''42''"
  by (simp add: strip_def strip_by_def ustr_def is_space_def)

theorem verify_challenge_response_taxonomy_witness:
  "verify_challenge_response sample_challenges (ustr ''beef'') (ustr ''42'') 5 1000000
     = (sample_challenges, False, ''challenge_not_found_or_expired'')
   \<and> verify_challenge_response sample_challenges (ustr ''c0ffee'') (ustr ''42'') 5 300000001
     = (Map.empty, False, ''challenge_expired'')
   \<and> verify_challenge_response sample_challenges (ustr ''c0ffee'') (ustr ''41'') 30001 1000000
     = (sample_challenges, False, ''response_too_slow'')
   \<and> verify_challenge_response sample_challenges (ustr ''c0ffee'') (ustr ''41'') 5 1000000
     = (sample_challenges, False, ''incorrect_answer'')
   \<and> verify_challenge_response sample_challenges (ustr ''c0ffee'') ([32] @ ustr ''42'' @ [10]) 5 1000000
     = (Map.empty, True, ''verified_fast_response'')
   \<and> verify_challenge_response Map.empty (ustr ''c0ffee'') ([32] @ ustr ''42'' @ [10]) 5 1000000
     = (Map.empty, False, ''challenge_not_found_or_expired'')"
  using
    verify_challenge_response_taxonomy [of sample_challenges "ustr ''beef''" "ustr ''42''" 5 1000000]
    verify_challenge_response_taxonomy [of sample_challenges "ustr ''c0ffee''" "ustr ''42''" 5 300000001]
    verify_challenge_response_taxonomy [of sample_challenges "ustr ''c0ffee''" "ustr ''41''" 5 1000000]
    verify_challenge_response_taxonomy [of sample_challenges "ustr ''c0ffee''" "ustr ''41''" 30001 1000000]
    verify_challenge_response_taxonomy [of sample_challenges "ustr ''c0ffee''" "[32] @ ustr ''42'' @ [10]" 5 1000000
       "[32] @ ustr ''42'' @ [10]" 5 1000000]
  by (simp add: sample_challenges_eq ustr_def strip_def strip_by_def is_space_def)

text \<open>
  C2 fails on the code. \<open>register_agent\<close> measures the response time from the start of
  its own handler, not from the moment the challenge was issued. A challenge is issued at
  time 0; the right answer arrives 31 seconds later, the handler reading the clock at
  31.000000 s, 31.000040 s and 31.000050 s. The measured response time is 0.04 ms and the
  registration is verified as a fast response, not rejected as too slow.
\<close>

theorem register_slow_answer_accepted:
  "register_agent_verification sample_challenges (ustr ''c0ffee'') (ustr ''42'')
      31000000 31000040 31000050
     = (Map.empty, Inr ''verified_fast_response'')"
proof -
  have rt: "fmul (total_seconds (31000040 - 31000000)) (float_of_int 1000) = fl (4 / 100)"
    by (simp add: total_seconds_def float_eval)
  have lt: "fl (4 / 100) < 1000" "\<not> 30000 < fl (4 / 100)"
    by (simp_all add: float_eval)
  show ?thesis
    unfolding register_agent_verification_def verify_registration_def Let_def rt
    using lt
    by (simp add: verify_challenge_response_def sample_challenges_eq strip_42)
qed

subsection \<open>Guardian review of a listing\<close>

lemma get_agent_trust_stored:
  "get_agent_trust g aid = (g1, t) \<Longrightarrow>
     agent_trust_scores g1 aid = Some t
     \<and> (\<forall>a. a \<noteq> aid \<longrightarrow> agent_trust_scores g1 a = agent_trust_scores g a)
     \<and> flagged_content g1 = flagged_content g \<and> moderation_logs g1 = moderation_logs g
     \<and> log_counter g1 = log_counter g"
  by (auto simp add: get_agent_trust_def Let_def split: option.splits)

lemma get_agent_trust_present:
  "agent_trust_scores g aid = Some t \<Longrightarrow> get_agent_trust g aid = (g, t)"
  by (simp add: get_agent_trust_def)

lemma record_warning_effect:
  assumes "agent_trust_scores g aid = Some t"
  shows "\<exists>t'. agent_trust_scores (record_warning g aid) aid = Some t'
            \<and> warnings t' = warnings t + 1 \<and> violations t' = violations t
            \<and> score t' = max 0 (fsub (score t) (fl (5 / 100)))
            \<and> is_trusted t' = (is_trusted t \<and> warnings t + 1 < 3)"
    and "\<forall>a. a \<noteq> aid \<longrightarrow> agent_trust_scores (record_warning g aid) a = agent_trust_scores g a"
    and "flagged_content (record_warning g aid) = flagged_content g"
    and "moderation_logs (record_warning g aid) = moderation_logs g"
    and "log_counter (record_warning g aid) = log_counter g"
  using assms by (auto simp add: record_warning_def get_agent_trust_present Let_def)

text \<open>
  C1, as amended. A submission of severity at most 2 that is not both safe and of severity
  0, from an agent whose trust is currently trusted, gets the action \<open>warning\<close>, and
  exactly one warning is recorded against that agent (the violations of the agent, the
  trust of every other agent and the flagged content stay as they were). The review is not
  \<open>approved\<close>, so \<open>create_listing\<close> rejects the submission with HTTP 400 and leaves the
  database as it was: no listing is created.
\<close>

theorem warning_listing_rejected:
  assumes "calculate_severity lower (lc_title ld) (lc_description ld) (or_empty (lc_tags ld)) \<le> 2"
    and "is_trusted (snd (get_agent_trust g (agent_id cur)))"
    and "\<not> (fst (check_content_safety lower (lc_title ld) (lc_description ld) (or_empty (lc_tags ld)))
            \<and> calculate_severity lower (lc_title ld) (lc_description ld) (or_empty (lc_tags ld)) = 0)"
  shows "\<exists>g' r t'.
           review_listing lower g (ustr ''pending'') (lc_title ld) (lc_description ld)
             (or_empty (lc_tags ld)) (agent_id cur) now = (g', r)
           \<and> review_action r = ''warning'' \<and> \<not> approved r
           \<and> agent_trust_scores g' (agent_id cur) = Some t'
           \<and> warnings t' = warnings (snd (get_agent_trust g (agent_id cur))) + 1
           \<and> violations t' = violations (snd (get_agent_trust g (agent_id cur)))
           \<and> (\<forall>a. a \<noteq> agent_id cur \<longrightarrow> agent_trust_scores g' a = agent_trust_scores g a)
           \<and> flagged_content g' = flagged_content g
           \<and> create_listing lower g db ld cur now new_id
               = (g', db, Inl (HTTPException 400 ''Guardian Review''))"
proof -
  obtain g1 t where gt: "get_agent_trust g (agent_id cur) = (g1, t)"
    by (cases "get_agent_trust g (agent_id cur)")
  obtain safe why where cs:
    "check_content_safety lower (lc_title ld) (lc_description ld) (or_empty (lc_tags ld)) = (safe, why)"
    by (cases "check_content_safety lower (lc_title ld) (lc_description ld) (or_empty (lc_tags ld))")
  define sev where "sev = calculate_severity lower (lc_title ld) (lc_description ld) (or_empty (lc_tags ld))"
  have st: "agent_trust_scores g1 (agent_id cur) = Some t"
    and oth: "\<forall>a. a \<noteq> agent_id cur \<longrightarrow> agent_trust_scores g1 a = agent_trust_scores g a"
    and fl1: "flagged_content g1 = flagged_content g"
    using get_agent_trust_stored [OF gt] by auto
  have tr: "is_trusted t" using assms(2) gt by simp
  have sev2: "sev \<le> 2" and ns: "(safe \<and> sev = 0) = False"
    using assms(1,3) cs by (simp_all add: sev_def)
  obtain t' where t': "agent_trust_scores (record_warning g1 (agent_id cur)) (agent_id cur) = Some t'"
      "warnings t' = warnings t + 1" "violations t' = violations t"
    using record_warning_effect(1) [OF st] by blast
  note rw = record_warning_effect(2,3) [OF st]
  define g2 where "g2 = record_warning g1 (agent_id cur)"
  obtain g3 lid where gl: "generate_log_id g2 now = (g3, lid)"
    by (cases "generate_log_id g2 now")
  have g3: "agent_trust_scores g3 = agent_trust_scores g2" "flagged_content g3 = flagged_content g2"
    using gl by (auto simp add: generate_log_id_def Let_def)
  define g' where "g' = g3\<lparr>moderation_logs := moderation_logs g3 @
      [\<lparr>log_id = lid, timestamp = now, action = WARNING, target_type = ''listing'',
        target_id = ustr ''pending'', log_agent_id = agent_id cur, reason = why,
        details = Some (lc_title ld, sev, score (snd (get_agent_trust g3 (agent_id cur))))\<rparr>]\<rparr>"
  define r where "r = \<lparr>approved = False, review_action = ''warning'',
      message = [9888, 65039] @ ustr '' Guardian notice: '' @ why @ ustr ''. Please review your listing.'',
      review_log_id = lid\<rparr>"
  have rev: "review_listing lower g (ustr ''pending'') (lc_title ld) (lc_description ld)
             (or_empty (lc_tags ld)) (agent_id cur) now = (g', r)"
    using cs gt tr sev2 gl
    by (simp add: review_listing_def Let_def sev_def [symmetric] g2_def [symmetric] g'_def r_def
        action_value_def ns)
  have cl: "create_listing lower g db ld cur now new_id = (g', db, Inl (HTTPException 400 ''Guardian Review''))"
    by (simp add: create_listing_def rev r_def)
  have "agent_trust_scores g' (agent_id cur) = Some t'"
    using t' g3 by (simp add: g'_def g2_def)
  moreover have "\<forall>a. a \<noteq> agent_id cur \<longrightarrow> agent_trust_scores g' a = agent_trust_scores g a"
    using rw(1) oth g3 by (simp add: g'_def g2_def)
  moreover have "flagged_content g' = flagged_content g"
    using rw(2) fl1 g3 by (simp add: g'_def g2_def)
  moreover have "warnings t' = warnings (snd (get_agent_trust g (agent_id cur))) + 1"
    "violations t' = violations (snd (get_agent_trust g (agent_id cur)))"
    using t' gt by simp_all
  ultimately show ?thesis
    using rev cl by (auto simp add: r_def)
qed

lemmas text_eval =
  ustr_def all_text_def ascii_lower_def ascii_lower_char_def or_empty_def
  PROHIBITED_KEYWORDS_def PROHIBITED_PATTERNS_def lits_def ci_eq_def is_space_def
  severity_words_def

lemma unlock_text:
  "all_text ascii_lower (ustr ''Unlock'') (ustr ''premium features for agents'') []
     = ustr ''unlock premium features for agents ''"
  by (simp add: text_eval)

lemma unlock_safe:
  "check_content_safety ascii_lower (ustr ''Unlock'') (ustr ''premium features for agents'') []
     = (True, ustr ''Content approved'')"
  unfolding check_content_safety_def Let_def unlock_text
  by (simp add: text_eval)

lemma unlock_severity:
  "calculate_severity ascii_lower (ustr ''Unlock'') (ustr ''premium features for agents'') [] = 1"
  unfolding calculate_severity_def Let_def unlock_text
  by (simp add: text_eval)

lemma crack_text:
  "all_text ascii_lower (ustr ''crack free'') (ustr ''premium features for agents'') []
     = ustr ''crack free premium features for agents ''"
  by (simp add: text_eval)

lemma crack_safe:
  "check_content_safety ascii_lower (ustr ''crack free'') (ustr ''premium features for agents'') []
     = (True, ustr ''Content approved'')"
  unfolding check_content_safety_def Let_def crack_text
  by (simp add: text_eval)

lemma crack_severity:
  "calculate_severity ascii_lower (ustr ''crack free'') (ustr ''premium features for agents'') [] = 3"
  unfolding calculate_severity_def Let_def crack_text
  by (simp add: text_eval)

lemma review_listing_verdict:
  "approved (snd (review_listing lower g lid ttl dsc tgs aid now))
     = (fst (check_content_safety lower ttl dsc tgs) \<and> calculate_severity lower ttl dsc tgs = 0)
   \<and> review_action (snd (review_listing lower g lid ttl dsc tgs aid now))
     = action_value
         (if fst (check_content_safety lower ttl dsc tgs) \<and> calculate_severity lower ttl dsc tgs = 0
            then APPROVED
          else if calculate_severity lower ttl dsc tgs \<le> 2 \<and> is_trusted (snd (get_agent_trust g aid))
            then WARNING
          else if calculate_severity lower ttl dsc tgs \<le> 4 then FLAGGED
          else REMOVED)"
  by (simp add: review_listing_def Let_def split: prod.splits)

lemma create_listing_not_approved:
  "\<not> approved (snd (review_listing lower g (ustr ''pending'') (lc_title ld) (lc_description ld)
        (or_empty (lc_tags ld)) (agent_id cur) now))
   \<Longrightarrow> snd (create_listing lower g db ld cur now new_id)
        = (db, Inl (HTTPException 400 ''Guardian Review''))"
  by (cases "review_listing lower g (ustr ''pending'') (lc_title ld) (lc_description ld)
        (or_empty (lc_tags ld)) (agent_id cur) now") (simp add: create_listing_def)

lemma new_agent_trusted: "is_trusted (snd (get_agent_trust new_guardian aid))"
  by (simp add: get_agent_trust_def new_guardian_def Let_def)

theorem warning_listing_rejected_witness:
  "calculate_severity ascii_lower (lc_title (unlock_listing (ustr ''Unlock'')))
       (lc_description (unlock_listing (ustr ''Unlock'')))
       (or_empty (lc_tags (unlock_listing (ustr ''Unlock'')))) = 1
   \<and> is_trusted (snd (get_agent_trust new_guardian (agent_id sample_seller)))
   \<and> review_action (snd (review_listing ascii_lower new_guardian (ustr ''pending'')
        (lc_title (unlock_listing (ustr ''Unlock'')))
        (lc_description (unlock_listing (ustr ''Unlock'')))
        (or_empty (lc_tags (unlock_listing (ustr ''Unlock'')))) (agent_id sample_seller) 0)) = ''warning''
   \<and> snd (create_listing ascii_lower new_guardian empty_market (unlock_listing (ustr ''Unlock''))
        sample_seller 0 (ustr ''L1'')) = (empty_market, Inl (HTTPException 400 ''Guardian Review''))"
proof -
  have sev: "calculate_severity ascii_lower (lc_title (unlock_listing (ustr ''Unlock'')))
       (lc_description (unlock_listing (ustr ''Unlock'')))
       (or_empty (lc_tags (unlock_listing (ustr ''Unlock'')))) = 1"
    using unlock_severity by (simp add: unlock_listing_def or_empty_def)
  have tr: "is_trusted (snd (get_agent_trust new_guardian (agent_id sample_seller)))"
    by (rule new_agent_trusted)
  show ?thesis
    using warning_listing_rejected [of ascii_lower "unlock_listing (ustr ''Unlock'')" new_guardian
        sample_seller 0 empty_market "ustr ''L1''"] sev tr
    by auto
qed

text \<open>
  C1 as stated fails. The title "Unlock" passes the safety check and scores severity 1;
  from an agent the moderator trusts the review is a \<open>warning\<close>, and \<open>create_listing\<close>
  answers HTTP 400 with the market still empty. The title "crack free" passes the safety
  check too, scores severity 3 and is \<open>flagged\<close>, not warned.
\<close>

theorem warning_listing_counterexample:
  "fst (check_content_safety ascii_lower (ustr ''Unlock'') (ustr ''premium features for agents'') [])
   \<and> calculate_severity ascii_lower (ustr ''Unlock'') (ustr ''premium features for agents'') [] = 1
   \<and> is_trusted (snd (get_agent_trust new_guardian (agent_id sample_seller)))
   \<and> review_action (snd (review_listing ascii_lower new_guardian (ustr ''pending'') (ustr ''Unlock'')
        (ustr ''premium features for agents'') [] (agent_id sample_seller) 0)) = ''warning''
   \<and> snd (create_listing ascii_lower new_guardian empty_market (unlock_listing (ustr ''Unlock''))
        sample_seller 0 (ustr ''L1'')) = (empty_market, Inl (HTTPException 400 ''Guardian Review''))
   \<and> listings empty_market = []
   \<and> fst (check_content_safety ascii_lower (ustr ''crack free'') (ustr ''premium features for agents'') [])
   \<and> calculate_severity ascii_lower (ustr ''crack free'') (ustr ''premium features for agents'') [] = 3
   \<and> review_action (snd (review_listing ascii_lower new_guardian (ustr ''pending'') (ustr ''crack free'')
        (ustr ''premium features for agents'') [] (agent_id sample_seller) 0)) = ''flagged''"
proof -
  have a: "review_action (snd (review_listing ascii_lower new_guardian (ustr ''pending'') (ustr ''Unlock'')
        (ustr ''premium features for agents'') [] (agent_id sample_seller) 0)) = ''warning''"
    using new_agent_trusted [of "agent_id sample_seller"]
    by (simp add: review_listing_verdict unlock_safe unlock_severity action_value_def)
  have b: "\<not> approved (snd (review_listing ascii_lower new_guardian (ustr ''pending'')
        (lc_title (unlock_listing (ustr ''Unlock''))) (lc_description (unlock_listing (ustr ''Unlock'')))
        (or_empty (lc_tags (unlock_listing (ustr ''Unlock'')))) (agent_id sample_seller) 0))"
    by (simp add: review_listing_verdict unlock_listing_def or_empty_def unlock_severity)
  have c: "review_action (snd (review_listing ascii_lower new_guardian (ustr ''pending'') (ustr ''crack free'')
        (ustr ''premium features for agents'') [] (agent_id sample_seller) 0)) = ''flagged''"
    by (simp add: review_listing_verdict crack_safe crack_severity action_value_def)
  show ?thesis
    using a c create_listing_not_approved [OF b] new_agent_trusted [of "agent_id sample_seller"]
    by (simp add: unlock_safe unlock_severity crack_safe crack_severity empty_market_def)
qed

subsection \<open>Authentication\<close>

lemma filter_key_unique:
  "distinct (map f xs) \<Longrightarrow> a \<in> set xs \<Longrightarrow> filter (\<lambda>x. f x = f a) xs = [a]"
proof (induction xs)
  case Nil
  then show ?case by simp
next
  case (Cons x xs)
  show ?case
  proof (cases "x = a")
    case True
    have "f a \<notin> f ` set xs" using Cons.prems(1) True by simp
    then have "filter (\<lambda>x. f x = f a) xs = []"
      unfolding filter_empty_conv by (metis imageI)
    then show ?thesis using True by simp
  next
    case False
    then have a: "a \<in> set xs" using Cons.prems(2) by simp
    have "f x \<noteq> f a" using Cons.prems(1) a by auto
    then show ?thesis using Cons.IH Cons.prems(1) a by simp
  qed
qed

lemma filter_key_absent:
  "k \<notin> f ` set xs \<Longrightarrow> filter (\<lambda>x. f x = k) xs = []"
  unfolding filter_empty_conv by (metis imageI)

lemma find_key_unique:
  "distinct (map f xs) \<Longrightarrow> a \<in> set xs \<Longrightarrow> find (\<lambda>x. f x = f a) xs = Some a"
proof (induction xs)
  case Nil
  then show ?case by simp
next
  case (Cons x xs)
  then show ?case by (cases "x = a") auto
qed

text \<open>
  C7. An agent whose status is banned or suspended presents its valid API key (the hashes
  of the table are distinct, as its unique constraint says). \<open>get_optional_agent\<close> returns
  the agent and stores the clock in its \<open>last_active_at\<close>; \<open>get_current_agent\<close> fails
  with HTTP 403 on the same key and leaves the database as it was.
\<close>

theorem optional_auth_ignores_status:
  assumes "distinct (map api_key_hash (agents db))"
    and "a \<in> set (agents db)"
    and "api_key_hash a = hash_api_key key"
    and "key \<noteq> []" and "startswith key API_KEY_PREFIX"
    and "agent_status a = Agent_BANNED \<or> agent_status a = Agent_SUSPENDED"
  shows "get_optional_agent hash_api_key db (Some key) now
           = (update_agent db (agent_id a) (\<lambda>x. x\<lparr>last_active_at := Some now\<rparr>),
              Inr (Some (a\<lparr>last_active_at := Some now\<rparr>)))
         \<and> a\<lparr>last_active_at := Some now\<rparr>
              \<in> set (agents (update_agent db (agent_id a) (\<lambda>x. x\<lparr>last_active_at := Some now\<rparr>)))
         \<and> get_current_agent hash_api_key db (Some key) now
           = (db, Inl (HTTPException 403
                (if agent_status a = Agent_BANNED then ''Agent account is banned.''
                 else ''Agent account is suspended.'')))"
proof -
  have "filter (\<lambda>x. api_key_hash x = api_key_hash a) (agents db) = [a]"
    using assms(1,2) by (rule filter_key_unique)
  then have sel: "scalar_one_or_none (filter (\<lambda>x. api_key_hash x = hash_api_key key) (agents db))
                = Inr (Some a)"
    using assms(3) by (simp add: scalar_one_or_none_def)
  have opt: "get_optional_agent hash_api_key db (Some key) now
           = (update_agent db (agent_id a) (\<lambda>x. x\<lparr>last_active_at := Some now\<rparr>),
              Inr (Some (a\<lparr>last_active_at := Some now\<rparr>)))"
    using assms(4,5) by (simp add: get_optional_agent_def sel)
  have mem: "a\<lparr>last_active_at := Some now\<rparr>
              \<in> set (agents (update_agent db (agent_id a) (\<lambda>x. x\<lparr>last_active_at := Some now\<rparr>)))"
    using assms(2) by (force simp add: update_agent_def)
  have cur: "get_current_agent hash_api_key db (Some key) now
           = (db, Inl (HTTPException 403
                (if agent_status a = Agent_BANNED then ''Agent account is banned.''
                 else ''Agent account is suspended.'')))"
    using assms(4,5,6) by (auto simp add: get_current_agent_def sel)
  show ?thesis using opt mem cur by simp
qed

theorem optional_auth_ignores_status_witness:
  "get_optional_agent rev
       (sample_market [sample_agent ''a1'' Agent_ACTIVE 100, sample_agent ''a2'' Agent_BANNED 100])
       (Some (ustr ''aam_a2'')) 7
     = (sample_market [sample_agent ''a1'' Agent_ACTIVE 100,
                       (sample_agent ''a2'' Agent_BANNED 100)\<lparr>last_active_at := Some 7\<rparr>],
        Inr (Some ((sample_agent ''a2'' Agent_BANNED 100)\<lparr>last_active_at := Some 7\<rparr>)))
   \<and> get_current_agent rev
       (sample_market [sample_agent ''a1'' Agent_ACTIVE 100, sample_agent ''a2'' Agent_BANNED 100])
       (Some (ustr ''aam_a2'')) 7
     = (sample_market [sample_agent ''a1'' Agent_ACTIVE 100, sample_agent ''a2'' Agent_BANNED 100],
        Inl (HTTPException 403 ''Agent account is banned.''))"
  using optional_auth_ignores_status [of
      "sample_market [sample_agent ''a1'' Agent_ACTIVE 100, sample_agent ''a2'' Agent_BANNED 100]"
      "sample_agent ''a2'' Agent_BANNED 100" rev "ustr ''aam_a2''" 7]
  by (simp add: sample_market_def sample_agent_def ustr_def API_KEY_PREFIX_def update_agent_def)

subsection \<open>Credit transfer\<close>

lemma agent_by_id_member:
  "distinct (map agent_id (agents db)) \<Longrightarrow> a \<in> set (agents db)
     \<Longrightarrow> agent_by_id db (agent_id a) = Some a"
  unfolding agent_by_id_def by (rule find_key_unique)

lemma find_update_same:
  assumes "\<And>x. f (g x) = f x"
  shows "find (\<lambda>x. f x = k) (map (\<lambda>x. if f x = k then g x else x) xs)
           = map_option g (find (\<lambda>x. f x = k) xs)"
  using assms by (induction xs) auto

lemma find_update_other:
  assumes "\<And>x. f (g x) = f x" and "k \<noteq> j"
  shows "find (\<lambda>x. f x = k) (map (\<lambda>x. if f x = j then g x else x) xs)
           = find (\<lambda>x. f x = k) xs"
  using assms by (induction xs) auto

lemma agent_by_id_update_same:
  assumes "\<And>x. agent_id (g x) = agent_id x"
  shows "agent_by_id (update_agent db k g) k = map_option g (agent_by_id db k)"
  unfolding agent_by_id_def update_agent_def using assms by (simp add: find_update_same)

lemma agent_by_id_update_other:
  assumes "\<And>x. agent_id (g x) = agent_id x" and "k \<noteq> j"
  shows "agent_by_id (update_agent db j g) k = agent_by_id db k"
  unfolding agent_by_id_def update_agent_def using assms
  by (simp add: find_update_other [where f = agent_id])

lemma update_agent_frame:
  "categories (update_agent db k g) = categories db"
  "listings (update_agent db k g) = listings db"
  "transactions (update_agent db k g) = transactions db"
  "ratings (update_agent db k g) = ratings db"
  by (simp_all add: update_agent_def)

text \<open>
  C3, as amended. Agent ids are distinct (the primary key) and \<open>x\<close> is the authenticated
  agent's row. The transfer fails and leaves the database as it was whenever the amount
  exceeds the balance of \<open>x\<close>, the recipient does not exist, the recipient is \<open>x\<close>, or the
  recipient is not active. When it succeeds, the recipient \<open>y\<close> is another agent, the new
  balances are the floats \<open>Bx - A\<close> and \<open>By + A\<close> (each the exact result rounded to
  binary64), every other agent is as before, and the total of the two balances changes by
  exactly the two rounding errors: it is conserved when both operations are exact.
\<close>

theorem transfer_credits_outcome:
  assumes "distinct (map agent_id (agents db))" and "x \<in> set (agents db)"
  shows "(credits x < transfer_amount tr
            \<or> recipient_id tr \<notin> agent_id ` set (agents db)
            \<or> recipient_id tr = agent_id x
            \<or> (\<exists>y \<in> set (agents db). agent_id y = recipient_id tr \<and> agent_status y \<noteq> Agent_ACTIVE)
          \<longrightarrow> (\<exists>e. transfer_credits db x tr = (db, Inl e)))
       \<and> (\<forall>db' b. transfer_credits db x tr = (db', Inr b) \<longrightarrow>
            (\<exists>y \<in> set (agents db).
               agent_id y = recipient_id tr \<and> agent_id y \<noteq> agent_id x
               \<and> b = fsub (credits x) (transfer_amount tr)
               \<and> agent_by_id db' (agent_id x) = Some (x\<lparr>credits := fsub (credits x) (transfer_amount tr)\<rparr>)
               \<and> agent_by_id db' (agent_id y) = Some (y\<lparr>credits := fadd (credits y) (transfer_amount tr)\<rparr>)
               \<and> (\<forall>k. k \<noteq> agent_id x \<and> k \<noteq> agent_id y \<longrightarrow> agent_by_id db' k = agent_by_id db k)
               \<and> fsub (credits x) (transfer_amount tr) + fadd (credits y) (transfer_amount tr)
                    - (credits x + credits y)
                  = (fl (credits x - transfer_amount tr) - (credits x - transfer_amount tr))
                    + (fl (credits y + transfer_amount tr) - (credits y + transfer_amount tr))))"
proof (intro conjI impI allI)
  assume fail: "credits x < transfer_amount tr
            \<or> recipient_id tr \<notin> agent_id ` set (agents db)
            \<or> recipient_id tr = agent_id x
            \<or> (\<exists>y \<in> set (agents db). agent_id y = recipient_id tr \<and> agent_status y \<noteq> Agent_ACTIVE)"
  show "\<exists>e. transfer_credits db x tr = (db, Inl e)"
  proof (cases "credits x < transfer_amount tr")
    case True
    then show ?thesis by (simp add: transfer_credits_def)
  next
    case enough: False
    show ?thesis
    proof (cases "recipient_id tr \<in> agent_id ` set (agents db)")
      case False
      then have "filter (\<lambda>a. agent_id a = recipient_id tr) (agents db) = []"
        by (rule filter_key_absent)
      then show ?thesis using enough
        by (simp add: transfer_credits_def scalar_one_or_none_def)
    next
      case True
      then obtain y where y: "y \<in> set (agents db)" "agent_id y = recipient_id tr" by auto
      have "filter (\<lambda>a. agent_id a = agent_id y) (agents db) = [y]"
        using assms(1) y(1) by (rule filter_key_unique)
      then have sel: "scalar_one_or_none (filter (\<lambda>a. agent_id a = recipient_id tr) (agents db))
                        = Inr (Some y)"
        using y(2) by (simp add: scalar_one_or_none_def)
      have uniq: "z = y" if "z \<in> set (agents db)" "agent_id z = recipient_id tr" for z
        using that y assms(1) by (metis distinct_map inj_onD)
      from fail enough True have "recipient_id tr = agent_id x \<or> agent_status y \<noteq> Agent_ACTIVE"
        using uniq by auto
      then show ?thesis using enough y(2)
        by (auto simp add: transfer_credits_def sel)
    qed
  qed
next
  fix db' b
  assume ok: "transfer_credits db x tr = (db', Inr b)"
  have enough: "\<not> credits x < transfer_amount tr"
    using ok by (auto simp add: transfer_credits_def)
  have "recipient_id tr \<in> agent_id ` set (agents db)"
  proof (rule ccontr)
    assume "recipient_id tr \<notin> agent_id ` set (agents db)"
    then have "filter (\<lambda>a. agent_id a = recipient_id tr) (agents db) = []"
      by (rule filter_key_absent)
    then show False using ok enough
      by (simp add: transfer_credits_def scalar_one_or_none_def)
  qed
  then obtain y where y: "y \<in> set (agents db)" "agent_id y = recipient_id tr" by auto
  have "filter (\<lambda>a. agent_id a = agent_id y) (agents db) = [y]"
    using assms(1) y(1) by (rule filter_key_unique)
  then have sel: "scalar_one_or_none (filter (\<lambda>a. agent_id a = recipient_id tr) (agents db))
                    = Inr (Some y)"
    using y(2) by (simp add: scalar_one_or_none_def)
  have ne: "agent_id y \<noteq> agent_id x" and act: "agent_status y = Agent_ACTIVE"
    using ok enough by (auto simp add: transfer_credits_def sel split: if_splits)
  define A where "A = transfer_amount tr"
  have res: "db' = update_agent (update_agent db (agent_id x) (\<lambda>a. a\<lparr>credits := fsub (credits x) A\<rparr>))
                     (agent_id y) (\<lambda>a. a\<lparr>credits := fadd (credits y) A\<rparr>)"
    and b: "b = fsub (credits x) A"
    using ok enough ne act by (auto simp add: transfer_credits_def sel Let_def A_def)
  have gx: "agent_by_id db (agent_id x) = Some x" and gy: "agent_by_id db (agent_id y) = Some y"
    using assms y(1) by (simp_all add: agent_by_id_member)
  have x': "agent_by_id db' (agent_id x) = Some (x\<lparr>credits := fsub (credits x) A\<rparr>)"
    using ne gx by (simp add: res agent_by_id_update_other agent_by_id_update_same)
  have y': "agent_by_id db' (agent_id y) = Some (y\<lparr>credits := fadd (credits y) A\<rparr>)"
    using ne gy by (simp add: res agent_by_id_update_other agent_by_id_update_same)
  have others: "\<forall>k. k \<noteq> agent_id x \<and> k \<noteq> agent_id y \<longrightarrow> agent_by_id db' k = agent_by_id db k"
    by (simp add: res agent_by_id_update_other)
  have err: "fsub (credits x) A + fadd (credits y) A - (credits x + credits y)
               = (fl (credits x - A) - (credits x - A)) + (fl (credits y + A) - (credits y + A))"
    by (simp add: fsub_def fadd_def)
  show "\<exists>y \<in> set (agents db).
               agent_id y = recipient_id tr \<and> agent_id y \<noteq> agent_id x
               \<and> b = fsub (credits x) (transfer_amount tr)
               \<and> agent_by_id db' (agent_id x) = Some (x\<lparr>credits := fsub (credits x) (transfer_amount tr)\<rparr>)
               \<and> agent_by_id db' (agent_id y) = Some (y\<lparr>credits := fadd (credits y) (transfer_amount tr)\<rparr>)
               \<and> (\<forall>k. k \<noteq> agent_id x \<and> k \<noteq> agent_id y \<longrightarrow> agent_by_id db' k = agent_by_id db k)
               \<and> fsub (credits x) (transfer_amount tr) + fadd (credits y) (transfer_amount tr)
                    - (credits x + credits y)
                  = (fl (credits x - transfer_amount tr) - (credits x - transfer_amount tr))
                    + (fl (credits y + transfer_amount tr) - (credits y + transfer_amount tr))"
    using y ne b x' y' others err unfolding A_def by blast
qed

lemmas market_eval =
  sample_market_def sample_agent_def ustr_def scalar_one_or_none_def scalar_one_def
  update_agent_def update_listing_def

theorem transfer_credits_outcome_witness:
  "transfer_credits
      (sample_market [sample_agent ''a1'' Agent_ACTIVE 100, sample_agent ''a2'' Agent_ACTIVE 50,
                      sample_agent ''a3'' Agent_SUSPENDED 0])
      (sample_agent ''a1'' Agent_ACTIVE 100)
      \<lparr>recipient_id = ustr ''a2'', transfer_amount = 30, transfer_note = None\<rparr>
     = (sample_market [sample_agent ''a1'' Agent_ACTIVE 70, sample_agent ''a2'' Agent_ACTIVE 80,
                       sample_agent ''a3'' Agent_SUSPENDED 0], Inr 70)
   \<and> transfer_credits
      (sample_market [sample_agent ''a1'' Agent_ACTIVE 100, sample_agent ''a2'' Agent_ACTIVE 50,
                      sample_agent ''a3'' Agent_SUSPENDED 0])
      (sample_agent ''a1'' Agent_ACTIVE 100)
      \<lparr>recipient_id = ustr ''a2'', transfer_amount = 200, transfer_note = None\<rparr>
     = (sample_market [sample_agent ''a1'' Agent_ACTIVE 100, sample_agent ''a2'' Agent_ACTIVE 50,
                       sample_agent ''a3'' Agent_SUSPENDED 0],
        Inl (HTTPException 400 ''Insufficient credits.''))
   \<and> transfer_credits
      (sample_market [sample_agent ''a1'' Agent_ACTIVE 100, sample_agent ''a2'' Agent_ACTIVE 50,
                      sample_agent ''a3'' Agent_SUSPENDED 0])
      (sample_agent ''a1'' Agent_ACTIVE 100)
      \<lparr>recipient_id = ustr ''a9'', transfer_amount = 30, transfer_note = None\<rparr>
     = (sample_market [sample_agent ''a1'' Agent_ACTIVE 100, sample_agent ''a2'' Agent_ACTIVE 50,
                       sample_agent ''a3'' Agent_SUSPENDED 0],
        Inl (HTTPException 404 ''Recipient agent not found''))
   \<and> transfer_credits
      (sample_market [sample_agent ''a1'' Agent_ACTIVE 100, sample_agent ''a2'' Agent_ACTIVE 50,
                      sample_agent ''a3'' Agent_SUSPENDED 0])
      (sample_agent ''a1'' Agent_ACTIVE 100)
      \<lparr>recipient_id = ustr ''a1'', transfer_amount = 30, transfer_note = None\<rparr>
     = (sample_market [sample_agent ''a1'' Agent_ACTIVE 100, sample_agent ''a2'' Agent_ACTIVE 50,
                       sample_agent ''a3'' Agent_SUSPENDED 0],
        Inl (HTTPException 400 ''Cannot transfer credits to yourself''))
   \<and> transfer_credits
      (sample_market [sample_agent ''a1'' Agent_ACTIVE 100, sample_agent ''a2'' Agent_ACTIVE 50,
                      sample_agent ''a3'' Agent_SUSPENDED 0])
      (sample_agent ''a1'' Agent_ACTIVE 100)
      \<lparr>recipient_id = ustr ''a3'', transfer_amount = 30, transfer_note = None\<rparr>
     = (sample_market [sample_agent ''a1'' Agent_ACTIVE 100, sample_agent ''a2'' Agent_ACTIVE 50,
                       sample_agent ''a3'' Agent_SUSPENDED 0],
        Inl (HTTPException 400 ''Recipient agent is not active''))"
proof -
  have f: "fsub 100 30 = 70" "fadd 50 30 = 80"
    by (simp_all add: float_eval)
  show ?thesis
    using transfer_credits_outcome [of
        "sample_market [sample_agent ''a1'' Agent_ACTIVE 100, sample_agent ''a2'' Agent_ACTIVE 50,
                      sample_agent ''a3'' Agent_SUSPENDED 0]"
        "sample_agent ''a1'' Agent_ACTIVE 100"
        "\<lparr>recipient_id = ustr ''a2'', transfer_amount = 30, transfer_note = None\<rparr>"]
    unfolding transfer_credits_def Let_def
    by (simp add: market_eval f)
qed

text \<open>
  C3 as stated fails on the total. With balances 0.3 and 0.2 and the amount 0.1 the
  transfer succeeds; \<open>0.2 + 0.1\<close> is rounded (to 0.30000000000000004), and the two new
  balances do not add up to the two old ones.
\<close>

theorem transfer_conservation_counterexample:
  "transfer_credits
      (sample_market [sample_agent ''a1'' Agent_ACTIVE (fl (3 / 10)),
                      sample_agent ''a2'' Agent_ACTIVE (fl (2 / 10))])
      (sample_agent ''a1'' Agent_ACTIVE (fl (3 / 10)))
      \<lparr>recipient_id = ustr ''a2'', transfer_amount = fl (1 / 10), transfer_note = None\<rparr>
     = (sample_market [sample_agent ''a1'' Agent_ACTIVE (fsub (fl (3 / 10)) (fl (1 / 10))),
                       sample_agent ''a2'' Agent_ACTIVE (fadd (fl (2 / 10)) (fl (1 / 10)))],
        Inr (fsub (fl (3 / 10)) (fl (1 / 10))))
   \<and> fsub (fl (3 / 10)) (fl (1 / 10)) + fadd (fl (2 / 10)) (fl (1 / 10)) \<noteq> fl (3 / 10) + fl (2 / 10)
   \<and> fadd (fl (2 / 10)) (fl (1 / 10)) \<noteq> fl (2 / 10) + fl (1 / 10)"
proof -
  have le: "\<not> fl (3 / 10) < fl (1 / 10)"
    by (simp add: float_eval)
  have a: "fsub (fl (3 / 10)) (fl (1 / 10)) + fadd (fl (2 / 10)) (fl (1 / 10)) \<noteq> fl (3 / 10) + fl (2 / 10)"
    by (simp add: float_eval)
  have b: "fadd (fl (2 / 10)) (fl (1 / 10)) \<noteq> fl (2 / 10) + fl (1 / 10)"
    by (simp add: float_eval)
  have c: "transfer_credits
      (sample_market [sample_agent ''a1'' Agent_ACTIVE (fl (3 / 10)),
                      sample_agent ''a2'' Agent_ACTIVE (fl (2 / 10))])
      (sample_agent ''a1'' Agent_ACTIVE (fl (3 / 10)))
      \<lparr>recipient_id = ustr ''a2'', transfer_amount = fl (1 / 10), transfer_note = None\<rparr>
     = (sample_market [sample_agent ''a1'' Agent_ACTIVE (fsub (fl (3 / 10)) (fl (1 / 10))),
                       sample_agent ''a2'' Agent_ACTIVE (fadd (fl (2 / 10)) (fl (1 / 10)))],
        Inr (fsub (fl (3 / 10)) (fl (1 / 10))))"
    unfolding transfer_credits_def Let_def
    using le by (simp add: market_eval)
  show ?thesis using a b c by simp
qed

subsection \<open>Purchases\<close>

lemma select_by_key:
  assumes "distinct (map f xs)" and "a \<in> set xs" and "f a = k"
  shows "scalar_one_or_none (filter (\<lambda>x. f x = k) xs) = Inr (Some a)"
    and "scalar_one (filter (\<lambda>x. f x = k) xs) = Inr a"
proof -
  have "filter (\<lambda>x. f x = f a) xs = [a]" using assms(1,2) by (rule filter_key_unique)
  then show "scalar_one_or_none (filter (\<lambda>x. f x = k) xs) = Inr (Some a)"
    and "scalar_one (filter (\<lambda>x. f x = k) xs) = Inr a"
    using assms(3) by (simp_all add: scalar_one_or_none_def scalar_one_def)
qed

lemma select_absent:
  assumes "k \<notin> f ` set xs"
  shows "scalar_one_or_none (filter (\<lambda>x. f x = k) xs) = Inr None"
    and "scalar_one (filter (\<lambda>x. f x = k) xs) = Inl NoResultFound"
proof -
  have "filter (\<lambda>x. f x = k) xs = []" using assms by (rule filter_key_absent)
  then show "scalar_one_or_none (filter (\<lambda>x. f x = k) xs) = Inr None"
    and "scalar_one (filter (\<lambda>x. f x = k) xs) = Inl NoResultFound"
    by (simp_all add: scalar_one_or_none_def scalar_one_def)
qed



lemma update_listing_frame:
  "agents (update_listing db k g) = agents db"
  "transactions (update_listing db k g) = transactions db"
  by (simp_all add: update_listing_def)

lemma by_id_frame:
  "agent_by_id (update_listing db k g) = agent_by_id db"
  "agent_by_id (db\<lparr>transactions := ts\<rparr>) = agent_by_id db"
  "agent_by_id (db\<lparr>ratings := rs\<rparr>) = agent_by_id db"
  "listing_by_id (update_agent db j h) = listing_by_id db"
  "listing_by_id (db\<lparr>transactions := ts\<rparr>) = listing_by_id db"
  by (simp_all add: fun_eq_iff agent_by_id_def listing_by_id_def update_listing_def update_agent_def)


lemma create_purchase_checked:
  assumes "distinct (map listing_id (listings db))" and "l \<in> set (listings db)"
    and "listing_id l = tc_listing_id pd" and "listing_status l = Listing_ACTIVE"
    and "seller_id l \<noteq> agent_id buyer" and "tc_quantity pd \<le> listing_quantity l"
    and "purchase_total l pd \<le> credits buyer"
    and "new_id \<notin> transaction_id ` set (transactions db)"
  shows "create_purchase db buyer pd new_id =
    (let txn = \<lparr>transaction_id = new_id, txn_listing_id = listing_id l,
                buyer_id = agent_id buyer, txn_seller_id = seller_id l,
                txn_quantity = tc_quantity pd, unit_price = listing_price l,
                total_amount = purchase_total l pd,
                fee_amount = fst (calculate_transaction_fee (purchase_total l pd) TRANSACTION_FEE_PERCENT),
                net_amount = snd (calculate_transaction_fee (purchase_total l pd) TRANSACTION_FEE_PERCENT),
                transaction_status = Txn_PENDING, buyer_notes = tc_buyer_notes pd\<rparr>;
         sold = (\<lambda>x. x\<lparr>listing_quantity := listing_quantity l - tc_quantity pd,
                         listing_status := (if listing_quantity l - tc_quantity pd = 0
                                            then Listing_SOLD else listing_status l)\<rparr>);
         db3 = update_agent
                 (update_listing
                    (update_agent db (agent_id buyer)
                       (\<lambda>a. a\<lparr>credits := fsub (credits buyer) (purchase_total l pd)\<rparr>))
                    (listing_id l) sold)
                 (agent_id buyer) (\<lambda>a. a\<lparr>total_purchases := total_purchases buyer + 1\<rparr>)
     in (db3\<lparr>transactions := transactions db3 @ [txn]\<rparr>,
         transaction_to_response txn (Some (sold l)) True))"
proof -
  have sel: "scalar_one_or_none (filter (\<lambda>x. listing_id x = tc_listing_id pd) (listings db))
               = Inr (Some l)"
    using assms(1,2,3) by (rule select_by_key)
  show ?thesis
    using assms(4-8)
    by (simp add: create_purchase_def sel Let_def purchase_total_def [symmetric]
        update_agent_frame update_listing_frame)
qed




lemma purchase_floats:
  "fmul 10 (float_of_int 1) = 10" "fsub 50 10 = 40"
  "calculate_transaction_fee 10 (5 / 2) = (1 / 4, 39 / 4)"
  unfolding calculate_transaction_fee_def Let_def by (simp_all add: float_eval)


lemmas purchase_eval =
  market_eval sample_listing_def TRANSACTION_FEE_PERCENT_def
  transaction_to_response_def valid_listing_response_def




text \<open>
  A purchase that takes the last units of a listing commits (the debit, quantity 0,
  status \<open>sold\<close>, the pending transaction), and then the answer fails:
  \<open>ListingResponse\<close> requires a quantity of at least 1.
\<close>

lemma create_purchase_sell_out:
  assumes "distinct (map listing_id (listings db))" and "l \<in> set (listings db)"
    and "listing_id l = tc_listing_id pd" and "listing_status l = Listing_ACTIVE"
    and "seller_id l \<noteq> agent_id buyer" and "tc_quantity pd = listing_quantity l"
    and "purchase_total l pd \<le> credits buyer"
    and "new_id \<notin> transaction_id ` set (transactions db)"
  shows "snd (create_purchase db buyer pd new_id) = Inl ValidationError
       \<and> length (transactions (fst (create_purchase db buyer pd new_id)))
           = length (transactions db) + 1"
proof -
  have le: "tc_quantity pd \<le> listing_quantity l" using assms(6) by simp
  show ?thesis
    using assms(6)
    by (simp add: create_purchase_checked [OF assms(1-5) le assms(7,8)] Let_def
        transaction_to_response_def valid_listing_response_def
        update_agent_frame update_listing_frame)
qed

lemma create_purchase_sell_out_example:
  "create_purchase
      ((sample_market [sample_agent ''a1'' Agent_ACTIVE 100, sample_agent ''a2'' Agent_ACTIVE 50])
         \<lparr>listings := [sample_listing ''L1'' ''a1'' 10 1 Listing_ACTIVE]\<rparr>)
      (sample_agent ''a2'' Agent_ACTIVE 50)
      \<lparr>tc_listing_id = ustr ''L1'', tc_quantity = 1, tc_buyer_notes = None\<rparr> (ustr ''T1'')
     = ((sample_market [sample_agent ''a1'' Agent_ACTIVE 100,
                        (sample_agent ''a2'' Agent_ACTIVE 40)\<lparr>total_purchases := 1\<rparr>])
          \<lparr>listings := [sample_listing ''L1'' ''a1'' 10 0 Listing_SOLD],
           transactions :=
             [\<lparr>transaction_id = ustr ''T1'', txn_listing_id = ustr ''L1'', buyer_id = ustr ''a2'',
               txn_seller_id = ustr ''a1'', txn_quantity = 1, unit_price = 10, total_amount = 10,
               fee_amount = 1 / 4, net_amount = 39 / 4, transaction_status = Txn_PENDING,
               buyer_notes = None\<rparr>]\<rparr>,
        Inl ValidationError)"
  unfolding create_purchase_def Let_def
  by (simp add: purchase_eval purchase_floats)

subsection \<open>Ratings\<close>

lemma rne_error: "\<bar>real_of_int (rne x) - x\<bar> \<le> 1 / 2"
proof -
  have "0 \<le> x - of_int \<lfloor>x\<rfloor>" "x - of_int \<lfloor>x\<rfloor> < 1" by linarith+
  then show ?thesis unfolding rne_def by (auto simp add: abs_if) linarith+
qed

lemma create_rating_conditions:
  assumes "distinct (map agent_id (agents db))"
    and "distinct (map transaction_id (transactions db))"
    and ok: "create_rating db rater rd new_id = (db', Inr r)"
  shows "\<exists>t \<in> set (transactions db). \<exists>ratee \<in> set (agents db).
           transaction_id t = rc_transaction_id rd \<and> transaction_status t = Txn_COMPLETED
           \<and> agent_id ratee = ratee_id r \<and> rating_score r = rc_score rd
           \<and> rater_id r = agent_id rater \<and> rating_count ratee + 1 \<noteq> 0
           \<and> db' = (update_agent db (agent_id ratee)
                      (\<lambda>a. a\<lparr>rating_count := rating_count ratee + 1,
                              rating_avg := py_round (float_rating_quotient (rating_avg ratee)
                                              (rating_count ratee) (rc_score rd)) 2\<rparr>))
                    \<lparr>ratings := ratings db @ [r]\<rparr>"
proof -
  have "rc_transaction_id rd \<in> transaction_id ` set (transactions db)"
  proof (rule ccontr)
    assume "rc_transaction_id rd \<notin> transaction_id ` set (transactions db)"
    then have "scalar_one_or_none (filter (\<lambda>x. transaction_id x = rc_transaction_id rd)
                 (transactions db)) = Inr None"
      by (rule select_absent)
    then show False using ok by (simp add: create_rating_def)
  qed
  then obtain t where t: "t \<in> set (transactions db)" "transaction_id t = rc_transaction_id rd"
    by auto
  have sel: "scalar_one_or_none (filter (\<lambda>x. transaction_id x = rc_transaction_id rd)
               (transactions db)) = Inr (Some t)"
    using assms(2) t by (rule select_by_key)
  define who where "who = (if agent_id rater = buyer_id t then txn_seller_id t else buyer_id t)"
  have part: "\<not> (buyer_id t \<noteq> agent_id rater \<and> txn_seller_id t \<noteq> agent_id rater)"
    and comp: "transaction_status t = Txn_COMPLETED"
    using ok by (auto simp add: create_rating_def sel split: if_splits)
  obtain ex where ex: "scalar_one_or_none
                      (filter (\<lambda>r. rating_transaction_id r = rc_transaction_id rd
                                     \<and> rater_id r = agent_id rater) (ratings db)) = ex"
    by simp
  have exn: "ex = Inr None"
    using ok part comp
    by (cases ex; simp add: create_rating_def sel ex Let_def split: option.splits)
  have "who \<in> agent_id ` set (agents db)"
  proof (rule ccontr)
    assume "who \<notin> agent_id ` set (agents db)"
    then have "scalar_one (filter (\<lambda>a. agent_id a = who) (agents db)) = Inl NoResultFound"
      by (rule select_absent)
    then show False using ok part comp
      by (simp add: create_rating_def sel ex exn Let_def who_def [symmetric])
  qed
  then obtain ratee where ratee: "ratee \<in> set (agents db)" "agent_id ratee = who" by auto
  have one: "scalar_one (filter (\<lambda>a. agent_id a = who) (agents db)) = Inr ratee"
    using assms(1) ratee by (rule select_by_key)
  have "agent_id ratee = ratee_id r \<and> rating_score r = rc_score rd \<and> rater_id r = agent_id rater
           \<and> rating_count ratee + 1 \<noteq> 0
           \<and> db' = (update_agent db (agent_id ratee)
                      (\<lambda>a. a\<lparr>rating_count := rating_count ratee + 1,
                              rating_avg := py_round (float_rating_quotient (rating_avg ratee)
                                              (rating_count ratee) (rc_score rd)) 2\<rparr>))
                    \<lparr>ratings := ratings db @ [r]\<rparr>"
    using ok part comp ratee(2)
    by (auto simp add: create_rating_def sel ex exn Let_def who_def [symmetric] one
        float_rating_quotient_def update_agent_frame split: if_splits)
  then show ?thesis using t comp ratee(1) by blast
qed


lemma rating_floats:
  "py_round (float_rating_quotient 0 0 5) 2 = 5"
  "py_round (float_rating_quotient 5 1 3) 2 = 4"
  "py_round (float_rating_quotient 4 2 4) 2 = 4"
  unfolding float_rating_quotient_def by (simp_all add: float_eval)

lemma rating_tie_floats:
  "float_rating_quotient 1 39 4 = 4841369599423283 / 4503599627370496"
  "py_round (4841369599423283 / 4503599627370496) 2 = 4818851601286431 / 4503599627370496"
  "fl (107 / 100) = 4818851601286431 / 4503599627370496"
  "fl (108 / 100) = 607985949695017 / 562949953421312"
  "spec_rating_avg 1 39 4 = 108 / 100"
  unfolding float_rating_quotient_def spec_rating_avg_def by (simp_all add: float_eval)

lemmas rating_eval =
  rated_market_def sample_txn_def sample_rating_def sample_rating_create_def market_eval

lemma rating_floats_unfolded:
  "py_round (fdiv (fadd (fmul 0 (float_of_int 0)) (float_of_int 5)) (float_of_int 1)) 2 = 5"
  "py_round (fdiv (fadd (fmul 5 (float_of_int 1)) (float_of_int 3)) (float_of_int 2)) 2 = 4"
  "py_round (fdiv (fadd (fmul 4 (float_of_int 2)) (float_of_int 4)) (float_of_int 3)) 2 = 4"
  "py_round (fdiv (fadd (fmul 1 (float_of_int 39)) (float_of_int 4)) (float_of_int 40)) 2
     = 4818851601286431 / 4503599627370496"
  by (simp_all add: float_eval)

lemma rating_run:
  "create_rating (rated_market 0 0 []) (sample_agent ''b1'' Agent_ACTIVE 100)
       (sample_rating_create ''T1'' 5) (ustr ''R1'')
     = (rated_market 5 1 [sample_rating ''R1'' ''T1'' 5], Inr (sample_rating ''R1'' ''T1'' 5))"
  "create_rating (rated_market 5 1 [sample_rating ''R1'' ''T1'' 5])
       (sample_agent ''b1'' Agent_ACTIVE 100) (sample_rating_create ''T2'' 3) (ustr ''R2'')
     = (rated_market 4 2 [sample_rating ''R1'' ''T1'' 5, sample_rating ''R2'' ''T2'' 3],
        Inr (sample_rating ''R2'' ''T2'' 3))"
  "create_rating (rated_market 4 2 [sample_rating ''R1'' ''T1'' 5, sample_rating ''R2'' ''T2'' 3])
       (sample_agent ''b1'' Agent_ACTIVE 100) (sample_rating_create ''T3'' 4) (ustr ''R3'')
     = (rated_market 4 3 [sample_rating ''R1'' ''T1'' 5, sample_rating ''R2'' ''T2'' 3,
                          sample_rating ''R3'' ''T3'' 4],
        Inr (sample_rating ''R3'' ''T3'' 4))"
  unfolding create_rating_def Let_def
  by (simp_all add: rating_eval rating_floats_unfolded)

lemma rating_tie_run:
  "create_rating (rated_market 1 39 []) (sample_agent ''b1'' Agent_ACTIVE 100)
       (sample_rating_create ''T1'' 4) (ustr ''R1'')
     = (rated_market (fl (107 / 100)) 40 [sample_rating ''R1'' ''T1'' 4],
        Inr (sample_rating ''R1'' ''T1'' 4))"
  unfolding create_rating_def Let_def
  by (simp add: rating_eval rating_floats_unfolded rating_tie_floats(3))

text \<open>
  C5. Agent ids and transaction ids are distinct (primary keys). Every successfully
  created rating with score \<open>s\<close> is on a completed transaction, and it updates the
  ratee's aggregate to \<open>newCount = oldCount + 1\<close> and
  \<open>newAvg = round(q, 2)\<close>, where \<open>q = (oldAvg * oldCount + s) / (oldCount + 1)\<close> is
  computed in binary64 floats, each operation rounded, and \<open>round(q, 2)\<close> is the float
  nearest to \<open>k / 100\<close> for the integer \<open>k\<close> nearest to \<open>100 * q\<close> (ties to even, on
  the exact value of the float \<open>q\<close>); every other agent stays as it was. An agent that
  starts at average 0.0 and count 0 and receives the scores 5, 3 and 4 in this order has
  the averages 5.0, 4.0 and 4.0, and the count 3 at the end. An agent at average 1.0 and
  count 39 that receives the score 4 has the average 1.07.
\<close>

theorem create_rating_average:
  assumes "distinct (map agent_id (agents db))"
    and "distinct (map transaction_id (transactions db))"
  shows "(\<forall>db' r. create_rating db rater rd new_id = (db', Inr r) \<longrightarrow>
           (\<exists>t \<in> set (transactions db). \<exists>ratee \<in> set (agents db). \<exists>q k.
              transaction_id t = rc_transaction_id rd \<and> transaction_status t = Txn_COMPLETED
              \<and> agent_id ratee = ratee_id r \<and> rating_score r = rc_score rd
              \<and> q = float_rating_quotient (rating_avg ratee) (rating_count ratee) (rc_score rd)
              \<and> k = rne (q * 100) \<and> \<bar>real_of_int k - q * 100\<bar> \<le> 1 / 2
              \<and> agent_by_id db' (ratee_id r)
                  = Some (ratee\<lparr>rating_count := rating_count ratee + 1,
                                 rating_avg := fl (real_of_int k / 100)\<rparr>)
              \<and> (\<forall>j. j \<noteq> ratee_id r \<longrightarrow> agent_by_id db' j = agent_by_id db j)
              \<and> ratings db' = ratings db @ [r]))
       \<and> create_rating (rated_market 0 0 []) (sample_agent ''b1'' Agent_ACTIVE 100)
            (sample_rating_create ''T1'' 5) (ustr ''R1'')
          = (rated_market 5 1 [sample_rating ''R1'' ''T1'' 5], Inr (sample_rating ''R1'' ''T1'' 5))
       \<and> create_rating (rated_market 5 1 [sample_rating ''R1'' ''T1'' 5])
            (sample_agent ''b1'' Agent_ACTIVE 100) (sample_rating_create ''T2'' 3) (ustr ''R2'')
          = (rated_market 4 2 [sample_rating ''R1'' ''T1'' 5, sample_rating ''R2'' ''T2'' 3],
             Inr (sample_rating ''R2'' ''T2'' 3))
       \<and> create_rating (rated_market 4 2 [sample_rating ''R1'' ''T1'' 5, sample_rating ''R2'' ''T2'' 3])
            (sample_agent ''b1'' Agent_ACTIVE 100) (sample_rating_create ''T3'' 4) (ustr ''R3'')
          = (rated_market 4 3 [sample_rating ''R1'' ''T1'' 5, sample_rating ''R2'' ''T2'' 3,
                               sample_rating ''R3'' ''T3'' 4],
             Inr (sample_rating ''R3'' ''T3'' 4))
       \<and> create_rating (rated_market 1 39 []) (sample_agent ''b1'' Agent_ACTIVE 100)
            (sample_rating_create ''T1'' 4) (ustr ''R1'')
          = (rated_market (fl (107 / 100)) 40 [sample_rating ''R1'' ''T1'' 4],
             Inr (sample_rating ''R1'' ''T1'' 4))"
proof -
  have gen: "\<exists>t \<in> set (transactions db). \<exists>ratee \<in> set (agents db). \<exists>q k.
              transaction_id t = rc_transaction_id rd \<and> transaction_status t = Txn_COMPLETED
              \<and> agent_id ratee = ratee_id r \<and> rating_score r = rc_score rd
              \<and> q = float_rating_quotient (rating_avg ratee) (rating_count ratee) (rc_score rd)
              \<and> k = rne (q * 100) \<and> \<bar>real_of_int k - q * 100\<bar> \<le> 1 / 2
              \<and> agent_by_id db' (ratee_id r)
                  = Some (ratee\<lparr>rating_count := rating_count ratee + 1,
                                 rating_avg := fl (real_of_int k / 100)\<rparr>)
              \<and> (\<forall>j. j \<noteq> ratee_id r \<longrightarrow> agent_by_id db' j = agent_by_id db j)
              \<and> ratings db' = ratings db @ [r]"
    if ok: "create_rating db rater rd new_id = (db', Inr r)" for db' r
  proof -
    obtain t ratee where t: "t \<in> set (transactions db)" and ratee: "ratee \<in> set (agents db)"
      and f: "transaction_id t = rc_transaction_id rd" "transaction_status t = Txn_COMPLETED"
        "agent_id ratee = ratee_id r" "rating_score r = rc_score rd"
      and db': "db' = (update_agent db (agent_id ratee)
                      (\<lambda>a. a\<lparr>rating_count := rating_count ratee + 1,
                              rating_avg := py_round (float_rating_quotient (rating_avg ratee)
                                              (rating_count ratee) (rc_score rd)) 2\<rparr>))
                    \<lparr>ratings := ratings db @ [r]\<rparr>"
      using create_rating_conditions [OF assms ok] by blast
    define q where "q = float_rating_quotient (rating_avg ratee) (rating_count ratee) (rc_score rd)"
    define k where "k = rne (q * 100)"
    have pr: "py_round q 2 = fl (real_of_int k / 100)"
      by (simp add: py_round_def k_def)
    have err: "\<bar>real_of_int k - q * 100\<bar> \<le> 1 / 2"
      unfolding k_def by (rule rne_error)
    have g: "agent_by_id db (agent_id ratee) = Some ratee"
      using assms(1) ratee by (rule agent_by_id_member)
    have a: "agent_by_id db' (ratee_id r)
                  = Some (ratee\<lparr>rating_count := rating_count ratee + 1,
                                 rating_avg := fl (real_of_int k / 100)\<rparr>)"
      using g f(3) by (simp add: db' by_id_frame agent_by_id_update_same q_def [symmetric] pr)
    have b: "\<forall>j. j \<noteq> ratee_id r \<longrightarrow> agent_by_id db' j = agent_by_id db j"
      using f(3) by (simp add: db' by_id_frame agent_by_id_update_other)
    have c: "ratings db' = ratings db @ [r]" by (simp add: db')
    show ?thesis using t ratee f a b c err q_def k_def by blast
  qed
  show ?thesis using gen rating_run rating_tie_run by blast
qed

theorem create_rating_average_witness:
  "distinct (map agent_id (agents (rated_market 1 39 [])))
   \<and> distinct (map transaction_id (transactions (rated_market 1 39 [])))
   \<and> create_rating (rated_market 1 39 []) (sample_agent ''b1'' Agent_ACTIVE 100)
       (sample_rating_create ''T1'' 4) (ustr ''R1'')
     = (rated_market (fl (107 / 100)) 40 [sample_rating ''R1'' ''T1'' 4],
        Inr (sample_rating ''R1'' ''T1'' 4))
   \<and> ratings (rated_market (fl (107 / 100)) 40 [sample_rating ''R1'' ''T1'' 4])
     = ratings (rated_market 1 39 []) @ [sample_rating ''R1'' ''T1'' 4]
   \<and> agent_by_id (rated_market (fl (107 / 100)) 40 [sample_rating ''R1'' ''T1'' 4]) (ustr ''s1'')
     = Some ((sample_agent ''s1'' Agent_ACTIVE 100)
               \<lparr>rating_avg := fl (real_of_int (rne (float_rating_quotient 1 39 4 * 100)) / 100),
                rating_count := 40\<rparr>)
   \<and> rne (float_rating_quotient 1 39 4 * 100) = 107"
proof -
  have d1: "distinct (map agent_id (agents (rated_market 1 39 [])))"
    by (simp add: rated_market_def sample_agent_def ustr_def)
  have d2: "distinct (map transaction_id (transactions (rated_market 1 39 [])))"
    by (simp add: rated_market_def sample_txn_def ustr_def)
  note inst = create_rating_average [OF d1 d2, of "sample_agent ''b1'' Agent_ACTIVE 100"
      "sample_rating_create ''T1'' 4" "ustr ''R1''"]
  have run: "create_rating (rated_market 1 39 []) (sample_agent ''b1'' Agent_ACTIVE 100)
       (sample_rating_create ''T1'' 4) (ustr ''R1'')
     = (rated_market (fl (107 / 100)) 40 [sample_rating ''R1'' ''T1'' 4],
        Inr (sample_rating ''R1'' ''T1'' 4))"
    using inst by blast
  have app: "ratings (rated_market (fl (107 / 100)) 40 [sample_rating ''R1'' ''T1'' 4])
     = ratings (rated_market 1 39 []) @ [sample_rating ''R1'' ''T1'' 4]"
    using inst run by blast
  have k: "rne (float_rating_quotient 1 39 4 * 100) = 107"
    by (simp add: rating_tie_floats(1) rne_def)
  have row: "agent_by_id (rated_market (fl (107 / 100)) 40 [sample_rating ''R1'' ''T1'' 4]) (ustr ''s1'')
     = Some ((sample_agent ''s1'' Agent_ACTIVE 100)
               \<lparr>rating_avg := fl (real_of_int (rne (float_rating_quotient 1 39 4 * 100)) / 100),
                rating_count := 40\<rparr>)"
    unfolding k by (simp add: agent_by_id_def rated_market_def sample_agent_def ustr_def)
  show ?thesis using d1 d2 run app row k by blast
qed

text \<open>
  Read as arithmetic on the numbers, the formula gives another value there:
  \<open>(1.0 * 39 + 4) / 40\<close> is 1.075 exactly, a tie that rounds to 1.08, while the float
  quotient lies just below 1.075 and the stored average is 1.07.
\<close>

theorem rating_average_counterexample:
  "create_rating (rated_market 1 39 []) (sample_agent ''b1'' Agent_ACTIVE 100)
       (sample_rating_create ''T1'' 4) (ustr ''R1'')
     = (rated_market (fl (107 / 100)) 40 [sample_rating ''R1'' ''T1'' 4],
        Inr (sample_rating ''R1'' ''T1'' 4))
   \<and> rating_avg (hd (agents (rated_market (fl (107 / 100)) 40 [sample_rating ''R1'' ''T1'' 4])))
     = fl (107 / 100)
   \<and> spec_rating_avg 1 39 4 = 108 / 100
   \<and> fl (107 / 100) \<noteq> 108 / 100 \<and> fl (107 / 100) \<noteq> fl (108 / 100)"
proof -
  have a: "rating_avg (hd (agents (rated_market (fl (107 / 100)) 40 [sample_rating ''R1'' ''T1'' 4])))
     = fl (107 / 100)"
    by (simp add: rated_market_def sample_agent_def)
  have b: "fl (107 / 100) \<noteq> 108 / 100" "fl (107 / 100) \<noteq> fl (108 / 100)"
    unfolding rating_tie_floats(3,4) by simp_all
  show ?thesis using rating_tie_run a b rating_tie_floats(5) by blast
qed

text \<open>
  The division raises when the new count is 0, that is for a ratee whose stored count is
  -1: the rating is refused and nothing is stored.
\<close>

lemma create_rating_zero_count:
  assumes "distinct (map agent_id (agents db))"
    and "distinct (map transaction_id (transactions db))"
    and "t \<in> set (transactions db)" and "transaction_id t = rc_transaction_id rd"
    and "transaction_status t = Txn_COMPLETED" and "buyer_id t = agent_id rater"
    and "\<forall>r \<in> set (ratings db). rating_transaction_id r \<noteq> rc_transaction_id rd"
    and "ratee \<in> set (agents db)" and "agent_id ratee = txn_seller_id t"
    and "rating_count ratee = - 1"
  shows "create_rating db rater rd new_id = (db, Inl ZeroDivisionError)"
proof -
  have sel: "scalar_one_or_none (filter (\<lambda>x. transaction_id x = rc_transaction_id rd)
               (transactions db)) = Inr (Some t)"
    using assms(2,3,4) by (rule select_by_key)
  have "filter (\<lambda>r. rating_transaction_id r = rc_transaction_id rd
                       \<and> rater_id r = agent_id rater) (ratings db) = []"
    using assms(7) by (simp add: filter_empty_conv)
  then have none: "scalar_one_or_none (filter (\<lambda>r. rating_transaction_id r = rc_transaction_id rd
                       \<and> rater_id r = agent_id rater) (ratings db)) = Inr None"
    by (simp add: scalar_one_or_none_def)
  have one: "scalar_one (filter (\<lambda>a. agent_id a = txn_seller_id t) (agents db)) = Inr ratee"
    using assms(1,8,9) by (rule select_by_key)
  show ?thesis
    using assms(5,6,10)
    by (simp add: create_rating_def sel none one Let_def)
qed

end
